theory Spec2Isabelle
  imports Complex_Main
begin

section \<open>Strings as the enrichment routines use them\<close>

text \<open>
  Transcripts, names and e-mail addresses are Python \<open>str\<close> values; they are modelled as
  \<open>string\<close> (a list of characters). \<open>str.lower()\<close> is modelled on the ASCII letters, all
  other characters are left unchanged.
\<close>

definition lower_char :: "char \<Rightarrow> char" where
  "lower_char c =
     (case map_of (zip ''ABCDEFGHIJKLMNOPQRSTUVWXYZ'' ''abcdefghijklmnopqrstuvwxyz'') c of
        Some d \<Rightarrow> d
      | None \<Rightarrow> c)"

definition lower :: "string \<Rightarrow> string" where
  "lower s = map lower_char s"

text \<open>\<open>startswith t p\<close> is Python's \<open>t.startswith(p)\<close>.\<close>

fun startswith :: "string \<Rightarrow> string \<Rightarrow> bool" where
  "startswith t [] = True"
| "startswith [] (p # ps) = False"
| "startswith (c # cs) (p # ps) = (c = p \<and> startswith cs ps)"

text \<open>\<open>str_in p t\<close> is Python's substring test \<open>p in t\<close>.\<close>

fun str_in :: "string \<Rightarrow> string \<Rightarrow> bool" where
  "str_in p [] = (p = [])"
| "str_in p (c # cs) = (startswith (c # cs) p \<or> str_in p cs)"

text \<open>\<open>any(p in t for p in ps)\<close>.\<close>

definition any_in :: "string list \<Rightarrow> string \<Rightarrow> bool" where
  "any_in ps t = list_ex (\<lambda>p. str_in p t) ps"

text \<open>\<open>sum(1 for p in ps if p in t)\<close>.\<close>

definition count_in :: "string list \<Rightarrow> string \<Rightarrow> nat" where
  "count_in ps t = length (filter (\<lambda>p. str_in p t) ps)"

section \<open>Numbers and errors\<close>

text \<open>
  Python floats are modelled as exact rationals. \<open>py_round x n\<close> is \<open>round(x, n)\<close>:
  the nearest multiple of \<open>10^-n\<close>, a tie going to the even neighbour.
\<close>

definition py_round :: "rat \<Rightarrow> nat \<Rightarrow> rat" where
  "py_round x n =
     (let s = x * 10 ^ n;
          f = \<lfloor>s\<rfloor>;
          d = s - of_int f;
          k = (if d < 1 / 2 then f
               else if 1 / 2 < d then f + 1
               else if even f then f else f + 1)
      in of_int k / 10 ^ n)"

datatype py_error = KeyError string | ValueError string

section \<open>Topic classification (\<open>SpaDataProcessor._classify_topics\<close>)\<close>

definition topic_keywords :: "(string \<times> string list) list" where
  "topic_keywords =
     [(''appointment_scheduling'',
         [''appointment'', ''schedule'', ''booking'', ''book'', ''reserve'', ''availability'']),
      (''service_inquiry'',
         [''service'', ''treatment'', ''massage'', ''facial'', ''spa'', ''therapy'', ''package'']),
      (''billing_payment'',
         [''billing'', ''payment'', ''charge'', ''invoice'', ''refund'', ''credit'', ''cost'',
          ''price'']),
      (''complaint'',
         [''complaint'', ''problem'', ''issue'', ''unhappy'', ''dissatisfied'', ''disappointed'',
          ''terrible'']),
      (''compliment'',
         [''great'', ''excellent'', ''amazing'', ''wonderful'', ''fantastic'', ''love'',
          ''satisfied'']),
      (''cancellation'',
         [''cancel'', ''cancellation'', ''reschedule'', ''change'', ''modify'']),
      (''technical_support'',
         [''website'', ''app'', ''technical'', ''login'', ''password'', ''system'']),
      (''product_inquiry'',
         [''product'', ''gift card'', ''membership'', ''package'', ''voucher'']),
      (''location_hours'',
         [''hours'', ''location'', ''address'', ''directions'', ''parking'', ''open'',
          ''closed''])]"

text \<open>
  The dictionary \<open>topic_scores\<close>, in insertion order: one entry per topic, the number of
  its keywords present in the lower-cased text.
\<close>

definition topic_scores_of :: "string \<Rightarrow> (string \<times> nat) list" where
  "topic_scores_of text_lower =
     map (\<lambda>(topic, keywords). (topic, count_in keywords text_lower)) topic_keywords"

text \<open>
  \<open>max(d, key=d.get)\<close>: the first key, in iteration order, whose value is maximal;
  \<open>ValueError\<close> on an empty dictionary.
\<close>

fun max_scan :: "string \<times> nat \<Rightarrow> (string \<times> nat) list \<Rightarrow> string \<times> nat" where
  "max_scan best [] = best"
| "max_scan best (kv # rest) = (if snd best < snd kv then max_scan kv rest else max_scan best rest)"

definition max_key :: "(string \<times> nat) list \<Rightarrow> py_error + string" where
  "max_key d = (case d of [] \<Rightarrow> Inl (ValueError ''max() arg is an empty sequence'')
                | kv # rest \<Rightarrow> Inr (fst (max_scan kv rest)))"

text \<open>\<open>d[k]\<close>: \<open>KeyError\<close> when the key is absent.\<close>

definition subscript :: "(string \<times> nat) list \<Rightarrow> string \<Rightarrow> py_error + nat" where
  "subscript d k = (case map_of d k of None \<Rightarrow> Inl (KeyError k) | Some v \<Rightarrow> Inr v)"

record topics =
  primary_topic :: string
  topic_confidence :: rat
  topic_scores :: "(string \<times> nat) list"

definition classify_topics :: "string \<Rightarrow> py_error + topics" where
  "classify_topics text =
     (let text_lower = lower text;
          scores = topic_scores_of text_lower;
          primary = (if list_ex (\<lambda>v. v \<noteq> 0) (map snd scores) then max_key scores
                     else Inr ''general'')
      in case primary of
           Inl e \<Rightarrow> Inl e
         | Inr topic \<Rightarrow>
             (let total_matches = sum_list (map snd scores)
              in case subscript scores topic of
                   Inl e \<Rightarrow> Inl e
                 | Inr score \<Rightarrow>
                     Inr \<lparr>primary_topic = topic,
                          topic_confidence =
                            py_round (of_nat score / of_nat (max total_matches 1)) 3,
                          topic_scores = scores\<rparr>))"

section \<open>Sentiment (\<open>SpaDataProcessor._analyze_sentiment\<close>)\<close>

text \<open>
  The polarity model (TextBlob) is an external library: it is a parameter, a function from
  the text to polarity and subjectivity, \<open>None\<close> when it raises.
\<close>

record sentiment =
  sentiment_polarity :: rat
  sentiment_subjectivity :: rat
  sentiment_label :: string
  customer_satisfaction_score :: rat

definition neutral_sentiment :: sentiment where
  "neutral_sentiment =
     \<lparr>sentiment_polarity = 0, sentiment_subjectivity = 0, sentiment_label = ''neutral'',
      customer_satisfaction_score = 5\<rparr>"

definition analyze_sentiment :: "(string \<Rightarrow> (rat \<times> rat) option) \<Rightarrow> string \<Rightarrow> sentiment" where
  "analyze_sentiment textblob text =
     (if text = [] then neutral_sentiment
      else case textblob text of
             None \<Rightarrow> neutral_sentiment
           | Some (polarity, subjectivity) \<Rightarrow>
               (let label = (if 1 / 10 < polarity then ''positive''
                             else if polarity < - (1 / 10) then ''negative''
                             else ''neutral'');
                    satisfaction_score = 5 + polarity * 5;
                    satisfaction_score = max 1 (min 10 satisfaction_score)
                in \<lparr>sentiment_polarity = py_round polarity 3,
                    sentiment_subjectivity = py_round subjectivity 3,
                    sentiment_label = label,
                    customer_satisfaction_score = py_round satisfaction_score 1\<rparr>))"

section \<open>The flat business record of one conversation\<close>

text \<open>
  The dictionary built by \<open>VConParser.extract_business_data\<close>, the input of the enrichment.
  \<open>duration_seconds\<close> is the sum of the turns' numeric durations.
\<close>

record call_details =
  conversation_id :: string
  subject :: string
  created_at :: string
  duration_seconds :: rat
  message_count :: nat
  conversation_type :: string
  has_recording :: bool
  agent_name :: string
  agent_email :: string
  customer_name :: string
  customer_phone :: string
  location :: string
  conversation_text :: string

section \<open>Call quality (\<open>SpaDataProcessor._assess_call_quality\<close>)\<close>

definition positive_indicators :: "string list" where
  "positive_indicators =
     [''thank you'', ''please'', ''help'', ''understand'', ''sorry'', ''apologize'',
      ''certainly'', ''absolutely'', ''of course'', ''glad to help'']"

definition negative_indicators :: "string list" where
  "negative_indicators =
     [''rude'', ''unprofessional'', ''hang up'', ''transfer'', ''manager'',
      ''escalate'', ''frustrated'', ''angry'', ''upset'']"

record quality =
  call_quality_score :: rat
  positive_indicators_count :: nat
  negative_indicators_count :: nat

text \<open>
  Nothing in the \<open>try\<close> block raises on a string and a numeric duration, so the
  \<open>except\<close> branch (score 7.0, counts 0) is not a branch of the model.
\<close>

definition assess_call_quality :: "string \<Rightarrow> call_details \<Rightarrow> quality" where
  "assess_call_quality text conversation =
     (let text_lower = lower text;
          positive_count = count_in positive_indicators text_lower;
          negative_count = count_in negative_indicators text_lower;
          base_score = 7;
          base_score = base_score + of_nat positive_count * (3 / 10);
          base_score = base_score - of_nat negative_count * (1 / 2);
          duration = duration_seconds conversation;
          base_score = (if 120 \<le> duration \<and> duration \<le> 600 then base_score + 1 / 2
                        else if 900 < duration then base_score - 3 / 10
                        else base_score);
          quality_score = max 1 (min 10 base_score)
      in \<lparr>call_quality_score = py_round quality_score 1,
          positive_indicators_count = positive_count,
          negative_indicators_count = negative_count\<rparr>)"

section \<open>Script adherence (\<open>SpaDataProcessor._analyze_script_adherence\<close>)\<close>

definition script_elements :: "(string \<times> string list) list" where
  "script_elements =
     [(''greeting'', [''thank you for calling'', ''feel good spas'', ''how can i help'', ''this is'']),
      (''identification'', [''my name is'', ''this is'', ''speaking'']),
      (''problem_acknowledgment'', [''understand'', ''i see'', ''i hear'', ''let me help'']),
      (''solution_offering'', [''i can help'', ''let me'', ''what i can do'', ''here's what'']),
      (''follow_up'', [''anything else'', ''is there anything'', ''follow up'', ''contact us'']),
      (''closing'', [''thank you'', ''have a great'', ''wonderful day'', ''goodbye''])]"

text \<open>The dictionary \<open>adherence_scores\<close>: 1 for an element with a phrase in the text, else 0.\<close>

definition adherence_scores :: "string \<Rightarrow> (string \<times> nat) list" where
  "adherence_scores text_lower =
     map (\<lambda>(element, phrases). (element, if any_in phrases text_lower then 1 else 0))
       script_elements"

text \<open>The local \<open>adherence_rate\<close>, before it is rounded for the output.\<close>

definition adherence_rate :: "string \<Rightarrow> rat" where
  "adherence_rate text =
     of_nat (sum_list (map snd (adherence_scores (lower text)))) / of_nat (length script_elements)"

record script_metrics =
  script_adherence_rate :: rat
  script_elements_followed :: nat
  script_elements_total :: nat
  script_details :: "(string \<times> nat) list"

definition analyze_script_adherence :: "string \<Rightarrow> script_metrics" where
  "analyze_script_adherence text =
     (let text_lower = lower text;
          scores = adherence_scores text_lower;
          total_elements = length script_elements;
          followed_elements = sum_list (map snd scores)
      in \<lparr>script_adherence_rate = py_round (adherence_rate text) 3,
          script_elements_followed = followed_elements,
          script_elements_total = total_elements,
          script_details = scores\<rparr>)"

section \<open>Customer experience (\<open>SpaDataProcessor._analyze_customer_experience\<close>)\<close>

definition satisfaction_indicators :: "string list" where
  "satisfaction_indicators =
     [''satisfied'', ''happy'', ''pleased'', ''great'', ''excellent'',
      ''wonderful'', ''amazing'', ''love'', ''perfect'', ''fantastic'']"

definition dissatisfaction_indicators :: "string list" where
  "dissatisfaction_indicators =
     [''dissatisfied'', ''unhappy'', ''upset'', ''angry'', ''frustrated'',
      ''terrible'', ''awful'', ''horrible'', ''worst'', ''hate'']"

definition effort_indicators :: "string list" where
  "effort_indicators =
     [''easy'', ''simple'', ''quick'', ''fast'', ''convenient'',
      ''smooth'', ''efficient'', ''straightforward'']"

definition difficulty_indicators :: "string list" where
  "difficulty_indicators =
     [''difficult'', ''hard'', ''complicated'', ''confusing'',
      ''slow'', ''long wait'', ''forever'', ''complicated'']"

record cx_metrics =
  customer_satisfaction_indicators :: nat
  customer_dissatisfaction_indicators :: nat
  low_effort_indicators :: nat
  high_effort_indicators :: nat
  net_satisfaction_score :: int
  net_effort_score :: int

definition analyze_customer_experience :: "string \<Rightarrow> cx_metrics" where
  "analyze_customer_experience text =
     (let text_lower = lower text;
          satisfaction_count = count_in satisfaction_indicators text_lower;
          dissatisfaction_count = count_in dissatisfaction_indicators text_lower;
          effort_count = count_in effort_indicators text_lower;
          difficulty_count = count_in difficulty_indicators text_lower
      in \<lparr>customer_satisfaction_indicators = satisfaction_count,
          customer_dissatisfaction_indicators = dissatisfaction_count,
          low_effort_indicators = effort_count,
          high_effort_indicators = difficulty_count,
          net_satisfaction_score = int satisfaction_count - int dissatisfaction_count,
          net_effort_score = int effort_count - int difficulty_count\<rparr>)"

section \<open>Temporal features (\<open>SpaDataProcessor._extract_temporal_features\<close>)\<close>

text \<open>
  A parsed \<open>datetime\<close>. \<open>datetime.fromisoformat\<close> is a library function: it is a
  parameter, \<open>None\<close> when it raises \<open>ValueError\<close>. The fields of a value it returns are
  in the ranges of the library (year 1 to 9999, month 1 to 12, and so on).
\<close>

record datetime =
  year :: nat
  month :: nat
  day :: nat
  hour :: nat
  minute :: nat
  second :: nat

definition digit_char :: "nat \<Rightarrow> char" where
  "digit_char n = ''0123456789'' ! (n mod 10)"

definition pad2 :: "nat \<Rightarrow> string" where
  "pad2 n = [digit_char (n div 10), digit_char n]"

definition pad4 :: "nat \<Rightarrow> string" where
  "pad4 n = [digit_char (n div 1000), digit_char (n div 100), digit_char (n div 10), digit_char n]"

definition is_leap :: "nat \<Rightarrow> bool" where
  "is_leap y = (y mod 4 = 0 \<and> (y mod 100 \<noteq> 0 \<or> y mod 400 = 0))"

definition days_before_year :: "nat \<Rightarrow> nat" where
  "days_before_year y =
     (let p = y - 1 in p * 365 + p div 4 - p div 100 + p div 400)"

definition days_before_month :: "nat \<Rightarrow> nat \<Rightarrow> nat" where
  "days_before_month y m =
     sum_list (take (m - 1) [31, if is_leap y then 29 else 28, 31, 30, 31, 30, 31, 31, 30, 31, 30, 31])"

text \<open>\<open>dt.weekday()\<close>: Monday is 0.\<close>

definition weekday :: "datetime \<Rightarrow> nat" where
  "weekday dt = (days_before_year (year dt) + days_before_month (year dt) (month dt) + day dt + 6) mod 7"

definition day_names :: "string list" where
  "day_names = [''Monday'', ''Tuesday'', ''Wednesday'', ''Thursday'', ''Friday'', ''Saturday'', ''Sunday'']"

definition month_names :: "string list" where
  "month_names =
     [''January'', ''February'', ''March'', ''April'', ''May'', ''June'', ''July'', ''August'',
      ''September'', ''October'', ''November'', ''December'']"

record temporal =
  call_date :: string
  call_time :: string
  call_hour :: nat
  call_day_of_week :: string
  call_month :: string
  call_year :: nat
  is_weekend :: bool
  is_business_hours :: bool
  call_quarter :: string

definition get_default_temporal_features :: temporal where
  "get_default_temporal_features =
     \<lparr>call_date = ''2025-01-01'',
      call_time = ''12:00:00'',
      call_hour = 12,
      call_day_of_week = ''Monday'',
      call_month = ''January'',
      call_year = 2025,
      is_weekend = False,
      is_business_hours = True,
      call_quarter = ''Q1''\<rparr>"

text \<open>\<open>created_at.replace('Z', '+00:00')\<close>.\<close>

definition replace_Z :: "string \<Rightarrow> string" where
  "replace_Z s = concat (map (\<lambda>c. if c = CHR ''Z'' then ''+00:00'' else [c]) s)"

definition extract_temporal_features :: "(string \<Rightarrow> datetime option) \<Rightarrow> string \<Rightarrow> temporal" where
  "extract_temporal_features fromisoformat created =
     (if created = [] then get_default_temporal_features
      else case fromisoformat (replace_Z created) of
             None \<Rightarrow> get_default_temporal_features
           | Some dt \<Rightarrow>
               \<lparr>call_date = pad4 (year dt) @ ''-'' @ pad2 (month dt) @ ''-'' @ pad2 (day dt),
                call_time = pad2 (hour dt) @ '':'' @ pad2 (minute dt) @ '':'' @ pad2 (second dt),
                call_hour = hour dt,
                call_day_of_week = day_names ! weekday dt,
                call_month = month_names ! (month dt - 1),
                call_year = year dt,
                is_weekend = (5 \<le> weekday dt),
                is_business_hours = (9 \<le> hour dt \<and> hour dt \<le> 17),
                call_quarter = ''Q'' @ [digit_char ((month dt - 1) div 3 + 1)]\<rparr>)"

section \<open>Outcome and urgency\<close>

definition classify_call_outcome :: "string \<Rightarrow> string" where
  "classify_call_outcome text =
     (let text_lower = lower text in
      if any_in [''resolved'', ''fixed'', ''solved'', ''helped'', ''booked'', ''scheduled''] text_lower
        then ''resolved''
      else if any_in [''follow up'', ''call back'', ''transfer'', ''escalate''] text_lower
        then ''requires_followup''
      else if any_in [''cancel'', ''cancelled'', ''no longer'', ''changed mind''] text_lower
        then ''cancelled''
      else if any_in [''complaint'', ''refund'', ''manager'', ''dissatisfied''] text_lower
        then ''complaint''
      else ''completed'')"

definition classify_urgency :: "string \<Rightarrow> string" where
  "classify_urgency text =
     (let text_lower = lower text;
          high_urgency = [''urgent'', ''emergency'', ''asap'', ''immediately'', ''crisis'', ''critical''];
          medium_urgency = [''soon'', ''today'', ''this week'', ''important'', ''need help'']
      in if any_in high_urgency text_lower then ''high''
         else if any_in medium_urgency text_lower then ''medium''
         else ''low'')"

section \<open>Enrichment (\<open>SpaDataProcessor._enrich_conversation_data\<close>)\<close>

text \<open>
  The enriched dictionary is the copy of the conversation updated with the result of each
  sub-feature. The keys of the sub-features are pairwise distinct and distinct from the keys
  of the conversation, so the record below keeps one field per sub-feature. No call of a
  sub-feature is inside a \<open>try\<close>: an exception of one of them leaves the function.
\<close>

record libs =
  textblob :: "string \<Rightarrow> (rat \<times> rat) option"
  fromisoformat :: "string \<Rightarrow> datetime option"

record enriched =
  conversation :: call_details
  sentiment_data :: sentiment
  topics_data :: topics
  quality_metrics :: quality
  script_data :: script_metrics
  cx_data :: cx_metrics
  temporal_features :: temporal
  call_outcome :: string
  urgency_level :: string

definition enrich_conversation_data :: "libs \<Rightarrow> call_details \<Rightarrow> py_error + enriched" where
  "enrich_conversation_data lib conv =
     (let text = conversation_text conv;
          sentiment = analyze_sentiment (textblob lib) text
      in case classify_topics text of
           Inl e \<Rightarrow> Inl e
         | Inr tp \<Rightarrow>
             Inr \<lparr>conversation = conv,
                  sentiment_data = sentiment,
                  topics_data = tp,
                  quality_metrics = assess_call_quality text conv,
                  script_data = analyze_script_adherence text,
                  cx_data = analyze_customer_experience text,
                  temporal_features = extract_temporal_features (fromisoformat lib) (created_at conv),
                  call_outcome = classify_call_outcome text,
                  urgency_level = classify_urgency text\<rparr>)"

section \<open>The vCon parser (\<open>VConParser\<close>)\<close>

text \<open>
  The decoded JSON is modelled by typed records: a field of type \<open>option\<close> is a key that may
  be absent (\<open>None\<close>), and \<open>get_str v d\<close> is \<open>dict.get(key, d)\<close>. Where the parser tests
  a value for being a number, the value is a \<open>jvalue\<close>: a number, or any other JSON value.
  A JSON boolean is a number here, as it is in Python (\<open>False == 0\<close>, and
  \<open>isinstance(False, int)\<close> holds).
\<close>

datatype jvalue = Number rat | Other

definition get_str :: "string option \<Rightarrow> string \<Rightarrow> string" where
  "get_str v d = (case v of None \<Rightarrow> d | Some s \<Rightarrow> s)"

definition get_val :: "jvalue option \<Rightarrow> jvalue \<Rightarrow> jvalue" where
  "get_val v d = (case v of None \<Rightarrow> d | Some x \<Rightarrow> x)"

definition get_list :: "'a list option \<Rightarrow> 'a list" where
  "get_list v = (case v of None \<Rightarrow> [] | Some xs \<Rightarrow> xs)"

text \<open>\<open>sep.join(parts)\<close>.\<close>

fun join :: "string \<Rightarrow> string list \<Rightarrow> string" where
  "join sep [] = []"
| "join sep [x] = x"
| "join sep (x # y # ys) = x @ sep @ join sep (y # ys)"

subsection \<open>Parties and roles\<close>

record raw_party =
  p_name :: "string option"
  p_tel :: "string option"
  p_email :: "string option"
  p_location :: "string option"
  p_organization :: "string option"

record party_info =
  name :: string
  tel :: string
  email :: string
  role :: string
  party_location :: string
  organization :: string

definition determine_party_role :: "raw_party \<Rightarrow> string" where
  "determine_party_role party =
     (let name_lower = lower (get_str (p_name party) '''');
          email_lower = lower (get_str (p_email party) '''')
      in if any_in [''support'', ''agent'', ''rep'', ''service''] name_lower then ''agent''
         else if str_in ''feelgoodspas'' email_lower \<or> str_in ''spa'' email_lower then ''agent''
         else ''customer'')"

definition extract_parties :: "raw_party list \<Rightarrow> party_info list" where
  "extract_parties parties_data =
     map (\<lambda>party.
            \<lparr>name = get_str (p_name party) ''Unknown'',
             tel = get_str (p_tel party) '''',
             email = get_str (p_email party) '''',
             role = determine_party_role party,
             party_location = get_str (p_location party) '''',
             organization = get_str (p_organization party) ''''\<rparr>)
       parties_data"

subsection \<open>Dialog and analysis\<close>

record raw_dialog =
  d_type :: "string option"
  d_party :: "jvalue option"
  d_start :: "jvalue option"
  d_duration :: "jvalue option"
  d_body :: "string option"
  d_mimetype :: "string option"
  d_url :: "string option"
  d_encoding :: "string option"

record dialog_entry =
  entry_type :: string
  party :: jvalue
  start :: jvalue
  duration :: jvalue
  body :: string
  mimetype :: string
  url :: string
  encoding :: string

definition extract_dialog :: "raw_dialog list \<Rightarrow> dialog_entry list" where
  "extract_dialog dialog_data =
     map (\<lambda>entry.
            \<lparr>entry_type = get_str (d_type entry) ''text'',
             party = get_val (d_party entry) (Number 0),
             start = get_val (d_start entry) (Number 0),
             duration = get_val (d_duration entry) (Number 0),
             body = get_str (d_body entry) '''',
             mimetype = get_str (d_mimetype entry) '''',
             url = get_str (d_url entry) '''',
             encoding = get_str (d_encoding entry) ''none''\<rparr>)
       dialog_data"

text \<open>The body of an analysis entry is opaque: it is kept as its JSON text.\<close>

record raw_analysis =
  a_type :: "string option"
  a_dialog :: "jvalue option"
  a_vendor :: "string option"
  a_schema :: "string option"
  a_body :: "string option"
  a_encoding :: "string option"

record analysis_entry =
  analysis_type :: string
  analysis_dialog :: jvalue
  vendor :: string
  schema :: string
  analysis_body :: string
  analysis_encoding :: string

definition extract_analysis :: "raw_analysis list \<Rightarrow> analysis_entry list" where
  "extract_analysis analysis_data =
     map (\<lambda>entry.
            \<lparr>analysis_type = get_str (a_type entry) '''',
             analysis_dialog = get_val (a_dialog entry) (Number 0),
             vendor = get_str (a_vendor entry) '''',
             schema = get_str (a_schema entry) '''',
             analysis_body = get_str (a_body entry) ''{}'',
             analysis_encoding = get_str (a_encoding entry) ''json''\<rparr>)
       analysis_data"

subsection \<open>Structural metrics\<close>

text \<open>The four keyword lists, local variables of \<open>_classify_conversation_type\<close>.\<close>

definition booking_keywords :: "string list" where
  "booking_keywords = [''appointment'', ''booking'', ''schedule'', ''reserve'', ''book'']"

definition complaint_keywords :: "string list" where
  "complaint_keywords = [''complaint'', ''problem'', ''issue'', ''unhappy'', ''dissatisfied'']"

definition billing_keywords :: "string list" where
  "billing_keywords = [''billing'', ''payment'', ''charge'', ''invoice'', ''refund'']"

definition service_keywords :: "string list" where
  "service_keywords = [''service'', ''treatment'', ''massage'', ''facial'', ''spa'']"

definition classify_conversation_type :: "string \<Rightarrow> string" where
  "classify_conversation_type text =
     (let text_lower = lower text;
          booking_count = count_in booking_keywords text_lower;
          complaint_count = count_in complaint_keywords text_lower;
          billing_count = count_in billing_keywords text_lower;
          service_count = count_in service_keywords text_lower;
          max_count = max (max (max booking_count complaint_count) billing_count) service_count
      in if max_count = 0 then ''general''
         else if max_count = booking_count then ''booking''
         else if max_count = complaint_count then ''complaint''
         else if max_count = billing_count then ''billing''
         else ''service_inquiry'')"

text \<open>
  The keys \<open>message_count\<close>, \<open>conversation_type\<close> and \<open>has_recording\<close> of the metrics
  dictionary carry the prefix \<open>metrics_\<close> here, the flat business record has keys of the
  same names.
\<close>

record metrics =
  total_duration :: rat
  metrics_message_count :: nat
  agent_messages :: nat
  customer_messages :: nat
  avg_response_time :: rat
  metrics_conversation_type :: string
  metrics_has_recording :: bool
  has_analysis :: bool

text \<open>One iteration of the loop over the dialog.\<close>

definition count_entry :: "dialog_entry \<Rightarrow> metrics \<Rightarrow> metrics" where
  "count_entry entry m =
     (let m = (case duration entry of
                 Number d \<Rightarrow> m\<lparr>total_duration := total_duration m + d\<rparr>
               | Other \<Rightarrow> m);
          m = (if party entry = Number 0 then m\<lparr>agent_messages := agent_messages m + 1\<rparr>
               else m\<lparr>customer_messages := customer_messages m + 1\<rparr>);
          m = (if entry_type entry = ''recording'' then m\<lparr>metrics_has_recording := True\<rparr> else m)
      in m)"

definition calculate_conversation_metrics ::
    "dialog_entry list \<Rightarrow> analysis_entry list \<Rightarrow> metrics" where
  "calculate_conversation_metrics dialog_data analysis_data =
     (let m = \<lparr>total_duration = 0,
               metrics_message_count = length dialog_data,
               agent_messages = 0,
               customer_messages = 0,
               avg_response_time = 0,
               metrics_conversation_type = ''unknown'',
               metrics_has_recording = False,
               has_analysis = (0 < length analysis_data)\<rparr>;
          m = fold count_entry dialog_data m;
          all_text = join '' '' (map body dialog_data)
      in m\<lparr>metrics_conversation_type := classify_conversation_type all_text\<rparr>)"

subsection \<open>One conversation\<close>

record vcon_json =
  parties :: "raw_party list option"
  dialog :: "raw_dialog list option"
  analysis :: "raw_analysis list option"

record raw_conversation =
  raw_id :: "string option"
  raw_uuid :: "string option"
  raw_subject :: "string option"
  raw_created_at :: "string option"
  raw_updated_at :: "string option"
  raw_vcon_json :: "vcon_json option"

text \<open>
  An element of the loaded list is a conversation object or \<open>Malformed\<close>: any JSON value on
  which \<open>_parse_single_conversation\<close> raises; the exception is caught there and the result is
  \<open>None\<close>.
\<close>

datatype raw_item = Malformed | Conversation raw_conversation

record parsed_conversation =
  parsed_id :: string
  parsed_subject :: string
  parsed_created_at :: string
  parsed_updated_at :: string
  parsed_parties :: "party_info list"
  parsed_dialog :: "dialog_entry list"
  parsed_analysis :: "analysis_entry list"
  parsed_metrics :: metrics
  raw_vcon :: raw_conversation

definition parse_single_conversation :: "raw_item \<Rightarrow> parsed_conversation option" where
  "parse_single_conversation item =
     (case item of
        Malformed \<Rightarrow> None
      | Conversation vcon_data \<Rightarrow>
          (let vj = raw_vcon_json vcon_data;
               ps = extract_parties (get_list (case vj of None \<Rightarrow> None | Some j \<Rightarrow> parties j));
               dialog_data = extract_dialog (get_list (case vj of None \<Rightarrow> None | Some j \<Rightarrow> dialog j));
               analysis_data = extract_analysis (get_list (case vj of None \<Rightarrow> None | Some j \<Rightarrow> analysis j))
           in Some \<lparr>parsed_id = get_str (raw_id vcon_data) (get_str (raw_uuid vcon_data) ''''),
                    parsed_subject = get_str (raw_subject vcon_data) ''Unknown'',
                    parsed_created_at = get_str (raw_created_at vcon_data) '''',
                    parsed_updated_at = get_str (raw_updated_at vcon_data) '''',
                    parsed_parties = ps,
                    parsed_dialog = dialog_data,
                    parsed_analysis = analysis_data,
                    parsed_metrics = calculate_conversation_metrics dialog_data analysis_data,
                    raw_vcon = vcon_data\<rparr>))"

definition parse_conversations :: "raw_item list \<Rightarrow> parsed_conversation list" where
  "parse_conversations conversations = List.map_filter parse_single_conversation conversations"

subsection \<open>The flat business record\<close>

definition get_agent_info :: "parsed_conversation \<Rightarrow> party_info option" where
  "get_agent_info conv =
     (case find (\<lambda>p. role p = ''agent'') (parsed_parties conv) of
        Some p \<Rightarrow> Some p
      | None \<Rightarrow> (case parsed_parties conv of [] \<Rightarrow> None | p # rest \<Rightarrow> Some p))"

definition get_customer_info :: "parsed_conversation \<Rightarrow> party_info option" where
  "get_customer_info conv =
     (case find (\<lambda>p. role p = ''customer'') (parsed_parties conv) of
        Some p \<Rightarrow> Some p
      | None \<Rightarrow> (if 1 < length (parsed_parties conv) then Some (parsed_parties conv ! 1) else None))"

definition extract_full_conversation_text :: "parsed_conversation \<Rightarrow> string" where
  "extract_full_conversation_text conv =
     join [CHR 0x0A]
       (map (\<lambda>entry. (if party entry = Number 0 then ''Agent'' else ''Customer'') @ '': '' @ body entry)
          (filter (\<lambda>entry. entry_type entry = ''text'' \<and> body entry \<noteq> []) (parsed_dialog conv)))"

definition business_record :: "parsed_conversation \<Rightarrow> call_details" where
  "business_record conv =
     (let agent_info = get_agent_info conv;
          customer_info = get_customer_info conv
      in \<lparr>conversation_id = parsed_id conv,
          subject = parsed_subject conv,
          created_at = parsed_created_at conv,
          duration_seconds = total_duration (parsed_metrics conv),
          message_count = metrics_message_count (parsed_metrics conv),
          conversation_type = metrics_conversation_type (parsed_metrics conv),
          has_recording = metrics_has_recording (parsed_metrics conv),
          agent_name = (case agent_info of None \<Rightarrow> ''Unknown'' | Some p \<Rightarrow> name p),
          agent_email = (case agent_info of None \<Rightarrow> '''' | Some p \<Rightarrow> email p),
          customer_name = (case customer_info of None \<Rightarrow> ''Unknown'' | Some p \<Rightarrow> name p),
          customer_phone = (case customer_info of None \<Rightarrow> '''' | Some p \<Rightarrow> tel p),
          location = (case agent_info of None \<Rightarrow> ''Unknown'' | Some p \<Rightarrow> party_location p),
          conversation_text = extract_full_conversation_text conv\<rparr>)"

definition extract_business_data :: "parsed_conversation list \<Rightarrow> call_details list" where
  "extract_business_data parsed_data = map business_record parsed_data"

subsection \<open>Loading a file (\<open>VConParser.load_vcon_file\<close>)\<close>

text \<open>
  What opening and decoding a path gives: the three failures the function catches, or the
  decoded document, a list of items or a single item.
\<close>

datatype file_content =
  FileNotFound | InvalidJSON | Unreadable | JsonList "raw_item list" | JsonSingle raw_item

record filesystem =
  path_exists :: "string \<Rightarrow> bool"
  glob :: "string \<Rightarrow> string list"
  read_json :: "string \<Rightarrow> file_content"

text \<open>
  The result \<open>Some cs\<close> is the return value \<open>True\<close> with \<open>self.conversations = cs\<close>;
  \<open>None\<close> is \<open>False\<close>, after the error is logged.
\<close>

definition load_vcon_file :: "filesystem \<Rightarrow> string \<Rightarrow> raw_item list option" where
  "load_vcon_file fs file_path =
     (case read_json fs file_path of
        JsonList data \<Rightarrow> Some data
      | JsonSingle data \<Rightarrow> Some [data]
      | FileNotFound \<Rightarrow> None
      | InvalidJSON \<Rightarrow> None
      | Unreadable \<Rightarrow> None)"

section \<open>The batch run (\<open>SpaDataProcessor.process_vcon_files\<close>)\<close>

text \<open>
  The state of the run is \<open>self.processed_data\<close> and the local list \<open>processed_files\<close>.
  The parser's fields are overwritten by each successful load before they are read, so they
  are values of the iteration. An exception of the enrichment is caught nowhere: it ends
  the run.
\<close>

fun enrich_each :: "libs \<Rightarrow> call_details list \<Rightarrow> enriched list \<Rightarrow> py_error + enriched list" where
  "enrich_each lib [] processed_data = Inr processed_data"
| "enrich_each lib (c # cs) processed_data =
     (case enrich_conversation_data lib c of
        Inl e \<Rightarrow> Inl e
      | Inr enriched_data \<Rightarrow> enrich_each lib cs (processed_data @ [enriched_data]))"

fun process_files ::
    "filesystem \<Rightarrow> libs \<Rightarrow> string list \<Rightarrow> enriched list \<times> string list \<Rightarrow>
     py_error + enriched list \<times> string list" where
  "process_files fs lib [] st = Inr st"
| "process_files fs lib (file_path # rest) (processed_data, processed_files) =
     (case load_vcon_file fs file_path of
        None \<Rightarrow> process_files fs lib rest (processed_data, processed_files)
      | Some conversations \<Rightarrow>
          (let business_data = extract_business_data (parse_conversations conversations)
           in case enrich_each lib business_data processed_data of
                Inl e \<Rightarrow> Inl e
              | Inr processed_data' \<Rightarrow>
                  process_files fs lib rest (processed_data', processed_files @ [file_path])))"

definition files_of :: "filesystem \<Rightarrow> string \<Rightarrow> string list" where
  "files_of fs pattern = (if path_exists fs pattern then [pattern] else glob fs pattern)"

fun process_patterns ::
    "filesystem \<Rightarrow> libs \<Rightarrow> string list \<Rightarrow> enriched list \<times> string list \<Rightarrow>
     py_error + enriched list \<times> string list" where
  "process_patterns fs lib [] st = Inr st"
| "process_patterns fs lib (pattern # rest) st =
     (case process_files fs lib (files_of fs pattern) st of
        Inl e \<Rightarrow> Inl e
      | Inr st' \<Rightarrow> process_patterns fs lib rest st')"

text \<open>The result is the returned flag with the new \<open>self.processed_data\<close>.\<close>

definition process_vcon_files ::
    "filesystem \<Rightarrow> libs \<Rightarrow> string list \<Rightarrow> enriched list \<Rightarrow> py_error + bool \<times> enriched list" where
  "process_vcon_files fs lib file_patterns processed_data =
     (case process_patterns fs lib file_patterns (processed_data, []) of
        Inl e \<Rightarrow> Inl e
      | Inr (processed_data', processed_files) \<Rightarrow>
          Inr (0 < length processed_files, processed_data'))"

section \<open>The export and the run (\<open>SpaDataProcessor.export_to_csv\<close>, \<open>main\<close>)\<close>

text \<open>
  The data frame, the writing of the CSV file and the printing of the summary are the work
  of a library: \<open>write_csv\<close> is a parameter, true when all of it goes through and false when
  it raises, which \<open>export_to_csv\<close> catches. Empty data is refused before the library is
  called.
\<close>

definition export_to_csv :: "(enriched list \<Rightarrow> bool) \<Rightarrow> enriched list \<Rightarrow> bool" where
  "export_to_csv write_csv processed_data =
     (if processed_data = [] then False else write_csv processed_data)"

text \<open>
  What the run prints: the success message, the failure of the export, or the failure of the
  processing. An exception that leaves \<open>process_vcon_files\<close> is caught nowhere in \<open>main\<close>:
  the run ends with it and prints none of the three.
\<close>

datatype report = Completed | ExportFailed | ProcessFailed

text \<open>The body of \<open>main\<close> for a list of patterns, on a fresh processor.\<close>

definition run_batch ::
    "filesystem \<Rightarrow> libs \<Rightarrow> (enriched list \<Rightarrow> bool) \<Rightarrow> string list \<Rightarrow> py_error + report" where
  "run_batch fs lib write_csv file_patterns =
     (case process_vcon_files fs lib file_patterns [] of
        Inl e \<Rightarrow> Inl e
      | Inr (processed, processed_data) \<Rightarrow>
          Inr (if processed
               then (if export_to_csv write_csv processed_data then Completed else ExportFailed)
               else ProcessFailed))"

definition vcon_files :: "string list" where
  "vcon_files =
     [''attached_assets/feel-good-spas-vcons_1753848151720.json'',
      ''attached_assets/feel-good-spas-vcons_1753849037994.json'',
      ''attached_assets/feel-good-spas-vcons*.json'']"

definition main :: "filesystem \<Rightarrow> libs \<Rightarrow> (enriched list \<Rightarrow> bool) \<Rightarrow> py_error + report" where
  "main fs lib write_csv = run_batch fs lib write_csv vcon_files"

section \<open>The specification's wording of the scores\<close>

text \<open>
  The call quality score as the specification describes it: start at 7.0, go through the
  phrases one by one and add 0.3 for each positive phrase that is present, subtract 0.5 for
  each negative phrase that is present, apply the two duration adjustments, clamp to
  \<open>[1, 10]\<close> and round to one decimal.
\<close>

fun per_phrase :: "rat \<Rightarrow> string list \<Rightarrow> string \<Rightarrow> rat \<Rightarrow> rat" where
  "per_phrase delta [] t score = score"
| "per_phrase delta (p # ps) t score =
     per_phrase delta ps t (if str_in p t then score + delta else score)"

definition spec_call_quality_score :: "string \<Rightarrow> rat \<Rightarrow> rat" where
  "spec_call_quality_score text seconds =
     (let t = lower text;
          s = per_phrase (3 / 10) positive_indicators t 7;
          s = per_phrase (- (1 / 2)) negative_indicators t s;
          s = (if 120 \<le> seconds \<and> seconds \<le> 600 then s + 1 / 2 else s);
          s = (if 900 < seconds then s - 3 / 10 else s)
      in py_round (max 1 (min 10 s)) 1)"

text \<open>The number of script elements with at least one marker phrase in the transcript.\<close>

definition followed_count :: "string \<Rightarrow> nat" where
  "followed_count text =
     length (filter (\<lambda>(element, phrases). any_in phrases (lower text)) script_elements)"


text \<open>
  The conversation type as the specification describes it: the four buckets in the fixed
  order, \<open>general\<close> when every count is zero, else the first bucket whose count is the
  highest.
\<close>

definition buckets_of :: "string \<Rightarrow> (string \<times> nat) list" where
  "buckets_of text =
     [(''booking'', count_in booking_keywords (lower text)),
      (''complaint'', count_in complaint_keywords (lower text)),
      (''billing'', count_in billing_keywords (lower text)),
      (''service_inquiry'', count_in service_keywords (lower text))]"

definition highest :: "(string \<times> nat) list \<Rightarrow> string \<times> nat \<Rightarrow> bool" where
  "highest buckets b = list_all (\<lambda>other. snd other \<le> snd b) buckets"

definition spec_conversation_type :: "string \<Rightarrow> string" where
  "spec_conversation_type text =
     (let buckets = buckets_of text
      in if list_all (\<lambda>b. snd b = 0) buckets then ''general''
         else case find (highest buckets) buckets of
                Some b \<Rightarrow> fst b
              | None \<Rightarrow> ''general'')"

text \<open>
  The role rule as the specification words it: the tokens are looked for in the domain of the
  e-mail address, the part after the last \<open>@\<close>.
\<close>

definition email_domain :: "string \<Rightarrow> string" where
  "email_domain e =
     (if CHR ''@'' \<in> set e then rev (takeWhile (\<lambda>c. c \<noteq> CHR ''@'') (rev e)) else [])"

definition spec_is_agent :: "raw_party \<Rightarrow> bool" where
  "spec_is_agent p =
     (let name_lower = lower (get_str (p_name p) '''');
          domain = email_domain (lower (get_str (p_email p) ''''))
      in any_in [''support'', ''agent'', ''rep'', ''service''] name_lower \<or>
         str_in ''feelgoodspas'' domain \<or> str_in ''spa'' domain)"

section \<open>Sample inputs\<close>

text \<open>
  Stand-ins for the two libraries: a polarity model that finds every text neutral, and a
  timestamp parser that knows one timestamp and rejects every other string.
\<close>

definition sample_fromisoformat :: "string \<Rightarrow> datetime option" where
  "sample_fromisoformat s =
     (if s = ''2024-02-29T09:02:03+00:00''
      then Some \<lparr>year = 2024, month = 2, day = 29, hour = 9, minute = 2, second = 3\<rparr>
      else None)"

definition sample_libs :: libs where
  "sample_libs = \<lparr>textblob = (\<lambda>text. Some (0, 0)), fromisoformat = sample_fromisoformat\<rparr>"

definition sample_call :: "string \<Rightarrow> string \<Rightarrow> rat \<Rightarrow> call_details" where
  "sample_call created words secs =
     \<lparr>conversation_id = ''conv-1'', subject = ''Call'', created_at = created,
      duration_seconds = secs, message_count = 1, conversation_type = ''general'',
      has_recording = False, agent_name = ''Unknown'', agent_email = '''',
      customer_name = ''Unknown'', customer_phone = '''', location = ''Unknown'',
      conversation_text = words\<rparr>"

text \<open>Scenario 2 of the specification: a rude agent, an escalation, a manager, 1000 seconds.\<close>

definition scenario2_call :: call_details where
  "scenario2_call =
     sample_call ''2024-02-29T09:02:03Z''
       ''Customer: The agent at the spa was rude, escalate this to a manager'' 1000"

definition sample_party :: "string \<Rightarrow> string \<Rightarrow> raw_party" where
  "sample_party n e =
     \<lparr>p_name = Some n, p_tel = None, p_email = Some e, p_location = None, p_organization = None\<rparr>"

definition sample_turn :: "rat \<Rightarrow> string \<Rightarrow> raw_dialog" where
  "sample_turn who words =
     \<lparr>d_type = Some ''text'', d_party = Some (Number who), d_start = None,
      d_duration = Some (Number 60), d_body = Some words, d_mimetype = None, d_url = None,
      d_encoding = None\<rparr>"

definition sample_conversation :: "string \<Rightarrow> string \<Rightarrow> raw_item" where
  "sample_conversation ident words =
     Conversation
       \<lparr>raw_id = Some ident, raw_uuid = None, raw_subject = None, raw_created_at = None,
        raw_updated_at = None,
        raw_vcon_json =
          Some \<lparr>parties = Some [sample_party ''Front Desk'' ''desk@feelgoodspas.com'',
                                 sample_party ''Dana Cruz'' ''dana@example.org''],
                dialog = Some [sample_turn 0 ''How can I help?'', sample_turn 1 words],
                analysis = None\<rparr>\<rparr>"

text \<open>A conversation whose only turn is a recording: its transcript is empty.\<close>

definition silent_conversation :: raw_item where
  "silent_conversation =
     Conversation
       \<lparr>raw_id = Some ''conv-9'', raw_uuid = None, raw_subject = None, raw_created_at = None,
        raw_updated_at = None,
        raw_vcon_json =
          Some \<lparr>parties = Some [sample_party ''Front Desk'' ''desk@feelgoodspas.com''],
                dialog =
                  Some [\<lparr>d_type = Some ''recording'', d_party = Some (Number 0), d_start = None,
                         d_duration = Some (Number 300), d_body = None,
                         d_mimetype = Some ''audio/wav'', d_url = Some ''call.wav'',
                         d_encoding = None\<rparr>],
                analysis = None\<rparr>\<rparr>"

text \<open>
  Scenario 4 of the specification: three files, the second one is not valid JSON. Two more
  files: one holds an empty JSON array, one holds the conversation without a transcript.
  The sample disk takes every write.
\<close>

definition sample_fs :: filesystem where
  "sample_fs =
     \<lparr>path_exists =
        (\<lambda>p. p \<in> set [''one.json'', ''two.json'', ''three.json'', ''none.json'', ''silent.json'']),
      glob = (\<lambda>p. []),
      read_json = (\<lambda>p.
        if p = ''one.json'' then JsonList [sample_conversation ''conv-1'' ''I want to book a massage'']
        else if p = ''two.json'' then InvalidJSON
        else if p = ''three.json'' then JsonSingle (sample_conversation ''conv-3'' ''What is the price?'')
        else if p = ''none.json'' then JsonList []
        else if p = ''silent.json'' then JsonList [silent_conversation]
        else FileNotFound)\<rparr>"

definition sample_write_csv :: "enriched list \<Rightarrow> bool" where
  "sample_write_csv processed_data = True"

section \<open>The batch, seen as a whole\<close>

text \<open>
  The files of a batch in the order the run visits them, the business records of the
  files that load, and the transcripts on which the topic classification returns.
\<close>

definition batch_files :: "filesystem \<Rightarrow> string list \<Rightarrow> string list" where
  "batch_files fs file_patterns = concat (map (files_of fs) file_patterns)"

definition loaded_calls :: "filesystem \<Rightarrow> string list \<Rightarrow> call_details list" where
  "loaded_calls fs files =
     concat (map (\<lambda>file_path.
                    case load_vcon_file fs file_path of
                      None \<Rightarrow> []
                    | Some conversations \<Rightarrow>
                        extract_business_data (parse_conversations conversations))
               files)"

definition has_topic_keyword :: "call_details \<Rightarrow> bool" where
  "has_topic_keyword c = any_in (concat (map snd topic_keywords)) (lower (conversation_text c))"

section \<open>Properties of the topic classification\<close>

lemma count_in_none: "\<not> any_in ps t \<Longrightarrow> count_in ps t = 0"
  by (induction ps) (auto simp: any_in_def count_in_def)

lemma any_in_append: "any_in (ps @ qs) t = (any_in ps t \<or> any_in qs t)"
  by (simp add: any_in_def)

lemma scores_all_zero:
  "\<not> any_in (concat (map snd kws)) t \<Longrightarrow>
   map (\<lambda>(topic, keywords). (topic, count_in keywords t)) kws =
   map (\<lambda>(topic, keywords). (topic, 0)) kws"
  by (induction kws) (auto simp: any_in_append count_in_none)

lemma zero_scores_general:
  "subscript (map (\<lambda>(topic, keywords). (topic, 0)) topic_keywords) ''general'' =
   Inl (KeyError ''general'')"
  by (simp add: subscript_def topic_keywords_def)

lemma zero_scores_no_hit:
  "\<not> list_ex (\<lambda>v. v \<noteq> 0) (map snd (map (\<lambda>(topic, keywords). (topic, 0::nat)) kws))"
  by (induction kws) auto

lemma no_keyword_KeyError:
  assumes "\<not> any_in (concat (map snd topic_keywords)) (lower text)"
  shows "classify_topics text = Inl (KeyError ''general'')"
proof -
  have "topic_scores_of (lower text) = map (\<lambda>(topic, keywords). (topic, 0)) topic_keywords"
    unfolding topic_scores_of_def using assms by (rule scores_all_zero)
  then show ?thesis
    using zero_scores_no_hit [of topic_keywords]
    by (simp add: classify_topics_def zero_scores_general Let_def)
qed

text \<open>With a keyword in the text the classification returns: the key found by \<open>max\<close> is a key
  of the dictionary.\<close>

lemma max_scan_mem: "max_scan best d = best \<or> max_scan best d \<in> set d"
proof (induction d arbitrary: best)
  case Nil
  show ?case by simp
next
  case (Cons a d)
  show ?case
    using Cons [of a] Cons [of best] by (cases "snd best < snd a") auto
qed

lemma max_key_found:
  assumes "d \<noteq> []"
  shows "\<exists>k v. max_key d = Inr k \<and> subscript d k = Inr v"
proof -
  from assms obtain kv rest where d: "d = kv # rest" by (cases d) auto
  have "max_scan kv rest \<in> set d" using max_scan_mem [of kv rest] d by auto
  then have "fst (max_scan kv rest) \<in> fst ` set d" by (rule imageI)
  then obtain v where "map_of d (fst (max_scan kv rest)) = Some v"
    by (metis domD dom_map_of_conv_image_fst)
  then show ?thesis by (simp add: max_key_def subscript_def d)
qed

lemma keyword_returns:
  assumes "any_in (concat (map snd topic_keywords)) (lower text)"
  shows "\<exists>tp. classify_topics text = Inr tp"
proof -
  have ne: "topic_scores_of (lower text) \<noteq> []"
    by (simp add: topic_scores_of_def topic_keywords_def)
  obtain k v where kv: "max_key (topic_scores_of (lower text)) = Inr k"
      "subscript (topic_scores_of (lower text)) k = Inr v"
    using max_key_found [OF ne] by blast
  have "list_ex (\<lambda>v. v \<noteq> 0) (map snd (topic_scores_of (lower text)))"
  proof (rule ccontr)
    assume "\<not> list_ex (\<lambda>v. v \<noteq> 0) (map snd (topic_scores_of (lower text)))"
    then have z: "\<forall>kw \<in> set topic_keywords. count_in (snd kw) (lower text) = 0"
      by (auto simp: topic_scores_of_def list_ex_iff split: prod.splits)
    have "\<not> any_in (concat (map snd kws)) (lower text)"
      if "\<forall>kw \<in> set kws. count_in (snd kw) (lower text) = 0" for kws
      using that by (induction kws) (auto simp: any_in_def count_in_def list_ex_iff filter_empty_conv)
    with z assms show False by blast
  qed
  then show ?thesis
    using kv by (simp add: classify_topics_def Let_def)
qed

text \<open>
  Claim C1. A transcript in which no keyword of the nine topic buckets occurs should be
  classified as \<open>general\<close> with confidence 0. The code selects \<open>general\<close> and then reads
  \<open>topic_scores['general']\<close>, a key the dictionary does not have: the classification raises
  \<open>KeyError\<close> on every such transcript and returns no topic at all.
\<close>

theorem classify_topics_no_keyword_raises:
  assumes "\<not> any_in (concat (map snd topic_keywords)) (lower text)"
  shows "classify_topics text = Inl (KeyError ''general'')"
  using assms by (rule no_keyword_KeyError)

theorem classify_topics_no_keyword_raises_witness:
  "\<not> any_in (concat (map snd topic_keywords)) (lower '''') \<and>
   classify_topics '''' = Inl (KeyError ''general'') \<and>
   \<not> any_in (concat (map snd topic_keywords)) (lower ''Hello, how are you?'') \<and>
   classify_topics ''Hello, how are you?'' = Inl (KeyError ''general'')"
proof -
  have h1: "\<not> any_in (concat (map snd topic_keywords)) (lower '''')"
    by (simp add: any_in_def topic_keywords_def lower_def)
  have h2: "\<not> any_in (concat (map snd topic_keywords)) (lower ''Hello, how are you?'')"
    by (simp add: any_in_def topic_keywords_def lower_def lower_char_def)
  show ?thesis
    using h1 h2 classify_topics_no_keyword_raises [OF h1] classify_topics_no_keyword_raises [OF h2]
    by simp
qed

section \<open>Properties of the enrichment\<close>

text \<open>
  Claim C2. The enrichment should return a complete record for every parsed conversation,
  the empty transcript included. It calls the topic classification outside any \<open>try\<close>, so for
  every conversation whose transcript has no topic keyword it raises \<open>KeyError\<close> and returns no
  record.
\<close>

theorem enrich_raises_without_topic_keyword:
  assumes "\<not> any_in (concat (map snd topic_keywords)) (lower (conversation_text conv))"
  shows "enrich_conversation_data lib conv = Inl (KeyError ''general'')"
  by (simp add: enrich_conversation_data_def no_keyword_KeyError [OF assms] Let_def)

theorem enrich_raises_without_topic_keyword_witness:
  "\<not> any_in (concat (map snd topic_keywords))
       (lower (conversation_text (sample_call ''2024-02-29T09:02:03Z'' '''' 0))) \<and>
   enrich_conversation_data sample_libs (sample_call ''2024-02-29T09:02:03Z'' '''' 0) =
     Inl (KeyError ''general'') \<and>
   \<not> any_in (concat (map snd topic_keywords))
       (lower (conversation_text (sample_call '''' ''Agent: Hello! Customer: Bye.'' 30))) \<and>
   enrich_conversation_data sample_libs (sample_call '''' ''Agent: Hello! Customer: Bye.'' 30) =
     Inl (KeyError ''general'')"
proof -
  have h1: "\<not> any_in (concat (map snd topic_keywords))
              (lower (conversation_text (sample_call ''2024-02-29T09:02:03Z'' '''' 0)))"
    and h2: "\<not> any_in (concat (map snd topic_keywords))
              (lower (conversation_text (sample_call '''' ''Agent: Hello! Customer: Bye.'' 30)))"
    by code_simp+
  show ?thesis
    using h1 h2 enrich_raises_without_topic_keyword [OF h1, of sample_libs]
      enrich_raises_without_topic_keyword [OF h2, of sample_libs]
    by simp
qed

text \<open>When a topic keyword is present the enrichment does return a record.\<close>

lemma enrich_returns:
  assumes "any_in (concat (map snd topic_keywords)) (lower (conversation_text conv))"
  shows "\<exists>r. enrich_conversation_data lib conv = Inr r"
proof -
  obtain tp where "classify_topics (conversation_text conv) = Inr tp"
    using keyword_returns [OF assms] by blast
  then show ?thesis by (simp add: enrich_conversation_data_def Let_def)
qed

lemma enrich_fields:
  assumes "enrich_conversation_data lib conv = Inr r"
  shows "conversation r = conv"
    and "quality_metrics r = assess_call_quality (conversation_text conv) conv"
    and "script_data r = analyze_script_adherence (conversation_text conv)"
    and "temporal_features r = extract_temporal_features (fromisoformat lib) (created_at conv)"
    and "call_outcome r = classify_call_outcome (conversation_text conv)"
    and "urgency_level r = classify_urgency (conversation_text conv)"
  using assms by (auto simp: enrich_conversation_data_def Let_def split: sum.splits)

section \<open>Properties of the call quality score\<close>

lemma per_phrase_count:
  "per_phrase delta ps t score = score + of_nat (count_in ps t) * delta"
  by (induction ps arbitrary: score) (auto simp: count_in_def algebra_simps)

lemma py_round_tenths: "py_round (of_int k / 10) 1 = of_int k / 10"
  by (simp add: py_round_def Let_def)

lemma clamp_tenths:
  "max 1 (min 10 (of_int k / 10 :: rat)) = of_int (max 10 (min 100 k)) / 10"
  by (auto simp: max_def min_def)

lemma base_score_tenths:
  "(7 :: rat) + of_nat p * (3 / 10) - of_nat n * (1 / 2) + of_int a / 10 =
   of_int (70 + 3 * int p - 5 * int n + a) / 10"
  by (simp add: field_simps)

lemma code_score_form:
  "call_quality_score (assess_call_quality text conv) =
   py_round (max 1 (min 10
     ((7 + of_nat (count_in positive_indicators (lower text)) * (3 / 10)
         - of_nat (count_in negative_indicators (lower text)) * (1 / 2))
      + (if 120 \<le> duration_seconds conv \<and> duration_seconds conv \<le> 600 then 1 / 2
         else if 900 < duration_seconds conv then - (3 / 10) else 0)))) 1"
  unfolding assess_call_quality_def Let_def quality.simps
  by (rule arg_cong [where f = "\<lambda>x. py_round (max 1 (min 10 x)) 1"]) simp

lemma spec_score_form:
  "spec_call_quality_score text seconds =
   py_round (max 1 (min 10
     ((7 + of_nat (count_in positive_indicators (lower text)) * (3 / 10)
         - of_nat (count_in negative_indicators (lower text)) * (1 / 2))
      + (if 120 \<le> seconds \<and> seconds \<le> 600 then 1 / 2
         else if 900 < seconds then - (3 / 10) else 0)))) 1"
  unfolding spec_call_quality_score_def Let_def per_phrase_count
  by (rule arg_cong [where f = "\<lambda>x. py_round (max 1 (min 10 x)) 1"]) simp

text \<open>The clamped score is a whole number of tenths, so rounding to one decimal keeps it.\<close>

lemma quality_score_unrounded:
  "call_quality_score (assess_call_quality text conv) =
   max 1 (min 10
     ((7 + of_nat (count_in positive_indicators (lower text)) * (3 / 10)
         - of_nat (count_in negative_indicators (lower text)) * (1 / 2))
      + (if 120 \<le> duration_seconds conv \<and> duration_seconds conv \<le> 600 then 1 / 2
         else if 900 < duration_seconds conv then - (3 / 10) else 0)))"
proof -
  define p where "p = count_in positive_indicators (lower text)"
  define n where "n = count_in negative_indicators (lower text)"
  define a :: int where
    "a = (if 120 \<le> duration_seconds conv \<and> duration_seconds conv \<le> 600 then 5
          else if 900 < duration_seconds conv then - 3 else 0)"
  have adj: "(if 120 \<le> duration_seconds conv \<and> duration_seconds conv \<le> 600 then 1 / 2
              else if 900 < duration_seconds conv then - (3 / 10) else (0 :: rat)) = of_int a / 10"
    by (simp add: a_def)
  have "py_round (max 1 (min 10 (7 + of_nat p * (3 / 10) - of_nat n * (1 / 2) + of_int a / 10))) 1 =
        max 1 (min 10 (7 + of_nat p * (3 / 10) - of_nat n * (1 / 2) + of_int a / 10))"
    unfolding base_score_tenths clamp_tenths py_round_tenths ..
  then show ?thesis
    unfolding code_score_form adj p_def n_def .
qed

lemma quality_score_bounds:
  "1 \<le> call_quality_score (assess_call_quality text conv)"
  "call_quality_score (assess_call_quality text conv) \<le> 10"
  unfolding quality_score_unrounded by simp_all

lemma quality_counts:
  "positive_indicators_count (assess_call_quality text conv) =
     count_in positive_indicators (lower text)"
  "negative_indicators_count (assess_call_quality text conv) =
     count_in negative_indicators (lower text)"
  unfolding assess_call_quality_def Let_def quality.simps by (rule refl)+

text \<open>
  Claim C9. For every transcript and duration the call quality score of the code is the
  score of the specification: 7.0, plus 0.3 for each positive phrase present, minus 0.5 for
  each negative phrase present, plus 0.5 for a duration in \<open>[120, 600]\<close>, minus 0.3 for a
  duration above 900, clamped to \<open>[1, 10]\<close> and rounded to one decimal; the emitted counts
  are the numbers of phrases present.
\<close>

theorem call_quality_score_spec:
  "call_quality_score (assess_call_quality text conv) =
     spec_call_quality_score text (duration_seconds conv) \<and>
   positive_indicators_count (assess_call_quality text conv) =
     length (filter (\<lambda>p. str_in p (lower text)) positive_indicators) \<and>
   negative_indicators_count (assess_call_quality text conv) =
     length (filter (\<lambda>p. str_in p (lower text)) negative_indicators) \<and>
   1 \<le> call_quality_score (assess_call_quality text conv) \<and>
   call_quality_score (assess_call_quality text conv) \<le> 10"
proof (intro conjI)
  show "call_quality_score (assess_call_quality text conv) =
        spec_call_quality_score text (duration_seconds conv)"
    unfolding code_score_form spec_score_form ..
  show "positive_indicators_count (assess_call_quality text conv) =
        length (filter (\<lambda>p. str_in p (lower text)) positive_indicators)"
    unfolding quality_counts count_in_def ..
  show "negative_indicators_count (assess_call_quality text conv) =
        length (filter (\<lambda>p. str_in p (lower text)) negative_indicators)"
    unfolding quality_counts count_in_def ..
  show "1 \<le> call_quality_score (assess_call_quality text conv)"
    by (rule quality_score_bounds)
  show "call_quality_score (assess_call_quality text conv) \<le> 10"
    by (rule quality_score_bounds)
qed

section \<open>Properties of the script adherence\<close>

lemma sum_flags:
  "sum_list (map snd (map (\<lambda>(element, phrases). (element, if P phrases then 1 else 0 :: nat)) xs)) =
   length (filter (\<lambda>(element, phrases). P phrases) xs)"
  by (induction xs) auto

lemma followed_elements_count:
  "sum_list (map snd (adherence_scores (lower text))) = followed_count text"
  unfolding adherence_scores_def followed_count_def by (rule sum_flags)

lemma followed_count_le: "followed_count text \<le> 6"
proof -
  have "followed_count text \<le> length script_elements"
    unfolding followed_count_def by (rule length_filter_le)
  then show ?thesis by (simp add: script_elements_def)
qed

lemma round_sixths:
  "py_round (0 / 6) 3 = 0" "py_round (1 / 6) 3 = 167 / 1000" "py_round (2 / 6) 3 = 333 / 1000"
  "py_round (3 / 6) 3 = 1 / 2" "py_round (4 / 6) 3 = 667 / 1000" "py_round (5 / 6) 3 = 833 / 1000"
  "py_round (6 / 6) 3 = 1"
  by code_simp+

lemma round_sixths_value:
  assumes "n \<le> 6"
  shows "py_round (of_nat n / 6) 3 = [0, 167 / 1000, 333 / 1000, 1 / 2, 667 / 1000, 833 / 1000, 1] ! n"
proof -
  from assms have "n = 0 \<or> n = 1 \<or> n = 2 \<or> n = 3 \<or> n = 4 \<or> n = 5 \<or> n = 6" by arith
  then show ?thesis using round_sixths by auto
qed

text \<open>
  Claim C6. For every transcript the adherence rate is \<open>followed_count / 6\<close> exactly, where
  \<open>followed_count\<close> is the number of the six script elements with a marker phrase in the
  transcript, and lies in \<open>[0, 1]\<close>; the emitted \<open>script_adherence_rate\<close> is this rate rounded
  to three decimals (one of 0, 0.167, 0.333, 0.5, 0.667, 0.833, 1), and lies in \<open>[0, 1]\<close> too.
\<close>

theorem script_adherence_rate_sixths:
  "script_elements_followed (analyze_script_adherence text) = followed_count text \<and>
   script_elements_total (analyze_script_adherence text) = 6 \<and>
   adherence_rate text = of_nat (followed_count text) / 6 \<and>
   0 \<le> adherence_rate text \<and> adherence_rate text \<le> 1 \<and>
   script_adherence_rate (analyze_script_adherence text) = py_round (of_nat (followed_count text) / 6) 3 \<and>
   script_adherence_rate (analyze_script_adherence text) =
     [0, 167 / 1000, 333 / 1000, 1 / 2, 667 / 1000, 833 / 1000, 1] ! followed_count text \<and>
   0 \<le> script_adherence_rate (analyze_script_adherence text) \<and>
   script_adherence_rate (analyze_script_adherence text) \<le> 1"
proof -
  have len: "length script_elements = 6" by (simp add: script_elements_def)
  have rate: "adherence_rate text = of_nat (followed_count text) / 6"
    by (simp add: adherence_rate_def followed_elements_count len)
  have emitted: "script_adherence_rate (analyze_script_adherence text) =
                 py_round (of_nat (followed_count text) / 6) 3"
    by (simp add: analyze_script_adherence_def Let_def rate)
  have val: "py_round (of_nat (followed_count text) / 6) 3 =
             [0, 167 / 1000, 333 / 1000, 1 / 2, 667 / 1000, 833 / 1000, 1] ! followed_count text"
    using followed_count_le by (rule round_sixths_value)
  have "followed_count text = 0 \<or> followed_count text = 1 \<or> followed_count text = 2 \<or>
        followed_count text = 3 \<or> followed_count text = 4 \<or> followed_count text = 5 \<or>
        followed_count text = 6"
    using followed_count_le [of "text"] by arith
  then have bounds: "0 \<le> [0, 167 / 1000, 333 / 1000, 1 / 2, 667 / 1000, 833 / 1000, 1 :: rat] ! followed_count text \<and>
                     [0, 167 / 1000, 333 / 1000, 1 / 2, 667 / 1000, 833 / 1000, 1 :: rat] ! followed_count text \<le> 1"
    by auto
  have r01: "0 \<le> adherence_rate text \<and> adherence_rate text \<le> 1"
    using followed_count_le [of "text"] by (simp add: rate)
  have fol: "script_elements_followed (analyze_script_adherence text) = followed_count text"
    by (simp add: analyze_script_adherence_def Let_def followed_elements_count)
  have tot: "script_elements_total (analyze_script_adherence text) = 6"
    by (simp add: analyze_script_adherence_def Let_def len)
  show ?thesis
    using fol tot rate r01 emitted val bounds by simp
qed

section \<open>Scenario 2: a rude agent, an escalation, a manager\<close>

lemma three_negative_indicators:
  assumes "str_in ''rude'' t" and "str_in ''escalate'' t" and "str_in ''manager'' t"
  shows "3 \<le> count_in negative_indicators t"
  using assms by (simp add: count_in_def negative_indicators_def)

lemma escalate_outcome:
  assumes "str_in ''escalate'' (lower text)"
  shows "classify_call_outcome text =
         (if any_in [''resolved'', ''fixed'', ''solved'', ''helped'', ''booked'', ''scheduled''] (lower text)
          then ''resolved'' else ''requires_followup'')"
proof -
  have "any_in [''follow up'', ''call back'', ''transfer'', ''escalate''] (lower text)"
    using assms by (simp add: any_in_def)
  then show ?thesis
    by (simp add: classify_call_outcome_def Let_def)
qed

lemma long_call_score:
  assumes "duration_seconds conv = 1000"
  shows "call_quality_score (assess_call_quality text conv) =
         max 1 (min 10 (7 + of_nat (count_in positive_indicators (lower text)) * (3 / 10)
                          - of_nat (count_in negative_indicators (lower text)) * (1 / 2) - 3 / 10))"
  unfolding quality_score_unrounded using assms by simp

text \<open>
  Claim C3, as amended. For a transcript with \<open>rude\<close>, \<open>escalate\<close> and \<open>manager\<close>, a
  duration of 1000 seconds and a topic keyword, the enrichment returns a record whose outcome
  is \<open>resolved\<close> when one of the resolution words occurs and \<open>requires_followup\<close> otherwise:
  \<open>escalate\<close> is caught by the follow-up check, which comes before the complaint check, so
  the outcome is never \<open>complaint\<close>. At least three negative indicators are counted and the
  quality score is 7.0 plus 0.3 per positive phrase minus 0.5 per negative phrase minus 0.3,
  clamped to \<open>[1, 10]\<close>: at least 1.0 and at most the larger of 1.0 and 5.2 plus 0.3 per
  positive phrase.
\<close>

theorem scenario2_outcome_and_quality:
  assumes "str_in ''rude'' (lower (conversation_text conv))"
    and "str_in ''escalate'' (lower (conversation_text conv))"
    and "str_in ''manager'' (lower (conversation_text conv))"
    and "duration_seconds conv = 1000"
    and "any_in (concat (map snd topic_keywords)) (lower (conversation_text conv))"
  shows "\<exists>r. enrich_conversation_data lib conv = Inr r \<and>
           call_outcome r =
             (if any_in [''resolved'', ''fixed'', ''solved'', ''helped'', ''booked'', ''scheduled'']
                   (lower (conversation_text conv))
              then ''resolved'' else ''requires_followup'') \<and>
           call_outcome r \<noteq> ''complaint'' \<and>
           3 \<le> negative_indicators_count (quality_metrics r) \<and>
           call_quality_score (quality_metrics r) =
             max 1 (min 10 (7 + of_nat (positive_indicators_count (quality_metrics r)) * (3 / 10)
                              - of_nat (negative_indicators_count (quality_metrics r)) * (1 / 2)
                              - 3 / 10)) \<and>
           1 \<le> call_quality_score (quality_metrics r) \<and>
           call_quality_score (quality_metrics r) \<le>
             max 1 (52 / 10 + of_nat (positive_indicators_count (quality_metrics r)) * (3 / 10))"
proof -
  let ?t = "conversation_text conv"
  obtain r where r: "enrich_conversation_data lib conv = Inr r"
    using enrich_returns [OF assms(5)] by blast
  have q: "quality_metrics r = assess_call_quality ?t conv"
    and o: "call_outcome r = classify_call_outcome ?t"
    using enrich_fields [OF r] by simp_all
  have out: "call_outcome r =
             (if any_in [''resolved'', ''fixed'', ''solved'', ''helped'', ''booked'', ''scheduled''] (lower ?t)
              then ''resolved'' else ''requires_followup'')"
    unfolding o using assms(2) by (rule escalate_outcome)
  have nc: "call_outcome r \<noteq> ''complaint''"
    unfolding out by simp
  have n3: "3 \<le> negative_indicators_count (quality_metrics r)"
    unfolding q quality_counts using assms(1-3) by (rule three_negative_indicators)
  have sc: "call_quality_score (quality_metrics r) =
            max 1 (min 10 (7 + of_nat (positive_indicators_count (quality_metrics r)) * (3 / 10)
                             - of_nat (negative_indicators_count (quality_metrics r)) * (1 / 2)
                             - 3 / 10))"
    unfolding q quality_counts using assms(4) by (rule long_call_score)
  have lo: "1 \<le> call_quality_score (quality_metrics r)"
    unfolding q by (rule quality_score_bounds)
  define p where "p = positive_indicators_count (quality_metrics r)"
  define n where "n = negative_indicators_count (quality_metrics r)"
  have "(3 :: rat) \<le> of_nat n"
    using n3 unfolding n_def by (metis of_nat_le_iff of_nat_numeral)
  then have "7 + of_nat p * (3 / 10) - of_nat n * (1 / 2) - 3 / 10
             \<le> (52 / 10 + of_nat p * (3 / 10) :: rat)"
    by simp
  then have "max 1 (min 10 (7 + of_nat p * (3 / 10) - of_nat n * (1 / 2) - 3 / 10))
             \<le> max 1 (52 / 10 + of_nat p * (3 / 10) :: rat)"
    by (simp add: max_def min_def)
  then have hi: "call_quality_score (quality_metrics r) \<le>
                 max 1 (52 / 10 + of_nat (positive_indicators_count (quality_metrics r)) * (3 / 10))"
    unfolding sc p_def n_def .
  show ?thesis
    by (rule exI [of _ r]) (intro conjI r out nc n3 sc lo hi)
qed

theorem scenario2_outcome_and_quality_witness:
  "str_in ''rude'' (lower (conversation_text scenario2_call)) \<and>
   str_in ''escalate'' (lower (conversation_text scenario2_call)) \<and>
   str_in ''manager'' (lower (conversation_text scenario2_call)) \<and>
   duration_seconds scenario2_call = 1000 \<and>
   any_in (concat (map snd topic_keywords)) (lower (conversation_text scenario2_call)) \<and>
   (\<exists>r. enrich_conversation_data sample_libs scenario2_call = Inr r \<and>
        call_outcome r = ''requires_followup'' \<and>
        call_outcome r \<noteq> ''complaint'' \<and>
        3 \<le> negative_indicators_count (quality_metrics r) \<and>
        1 \<le> call_quality_score (quality_metrics r))"
proof -
  have h1: "str_in ''rude'' (lower (conversation_text scenario2_call))"
    and h2: "str_in ''escalate'' (lower (conversation_text scenario2_call))"
    and h3: "str_in ''manager'' (lower (conversation_text scenario2_call))"
    and h4: "duration_seconds scenario2_call = 1000"
    and h5: "any_in (concat (map snd topic_keywords)) (lower (conversation_text scenario2_call))"
    and h6: "\<not> any_in [''resolved'', ''fixed'', ''solved'', ''helped'', ''booked'', ''scheduled'']
                 (lower (conversation_text scenario2_call))"
    by code_simp+
  show ?thesis
    using h1 h2 h3 h4 h5 h6 scenario2_outcome_and_quality [OF h1 h2 h3 h4 h5, of sample_libs]
    by auto
qed

text \<open>
  Claim C3, as stated, fails: in scenario 2 the enriched record has the outcome
  \<open>requires_followup\<close>, not \<open>complaint\<close>.
\<close>

theorem scenario2_outcome_counterexample:
  "str_in ''rude'' (lower (conversation_text scenario2_call)) \<and>
   str_in ''escalate'' (lower (conversation_text scenario2_call)) \<and>
   str_in ''manager'' (lower (conversation_text scenario2_call)) \<and>
   duration_seconds scenario2_call = 1000 \<and>
   map_sum id call_outcome (enrich_conversation_data sample_libs scenario2_call) =
     Inr ''requires_followup'' \<and>
   map_sum id call_outcome (enrich_conversation_data sample_libs scenario2_call) \<noteq>
     Inr ''complaint''"
proof -
  have h: "str_in ''rude'' (lower (conversation_text scenario2_call))"
      "str_in ''escalate'' (lower (conversation_text scenario2_call))"
      "str_in ''manager'' (lower (conversation_text scenario2_call))"
      "duration_seconds scenario2_call = 1000"
    and k: "any_in (concat (map snd topic_keywords)) (lower (conversation_text scenario2_call))"
    and o: "classify_call_outcome (conversation_text scenario2_call) = ''requires_followup''"
    by code_simp+
  obtain r where r: "enrich_conversation_data sample_libs scenario2_call = Inr r"
    using enrich_returns [OF k] by blast
  have "call_outcome r = ''requires_followup''"
    using enrich_fields(5) [OF r] o by simp
  then show ?thesis
    using h r by simp
qed

section \<open>The temporal sentinel\<close>

text \<open>
  Claim C7. When \<open>created_at\<close> is missing (the empty default) or the timestamp parser rejects
  it, the temporal features are exactly the sentinel: date 2025-01-01, time 12:00:00, hour
  12, Monday, January, 2025, not a weekend, business hours, Q1; and this is what an enriched
  record of such a conversation carries.
\<close>

theorem temporal_default_sentinel:
  assumes "created_at conv = [] \<or> fromisoformat lib (replace_Z (created_at conv)) = None"
  shows "extract_temporal_features (fromisoformat lib) (created_at conv) =
           \<lparr>call_date = ''2025-01-01'', call_time = ''12:00:00'', call_hour = 12,
            call_day_of_week = ''Monday'', call_month = ''January'', call_year = 2025,
            is_weekend = False, is_business_hours = True, call_quarter = ''Q1''\<rparr> \<and>
         (\<forall>r. enrich_conversation_data lib conv = Inr r \<longrightarrow>
              temporal_features r =
                \<lparr>call_date = ''2025-01-01'', call_time = ''12:00:00'', call_hour = 12,
                 call_day_of_week = ''Monday'', call_month = ''January'', call_year = 2025,
                 is_weekend = False, is_business_hours = True, call_quarter = ''Q1''\<rparr>)"
proof -
  have d: "extract_temporal_features (fromisoformat lib) (created_at conv) =
           get_default_temporal_features"
    using assms by (auto simp: extract_temporal_features_def)
  have e: "temporal_features r = get_default_temporal_features"
    if "enrich_conversation_data lib conv = Inr r" for r
    using enrich_fields(4) [OF that] d by simp
  show ?thesis
    using d e by (simp add: get_default_temporal_features_def)
qed

theorem temporal_default_sentinel_witness:
  "(created_at (sample_call '''' ''the spa'' 60) = [] \<or>
    fromisoformat sample_libs (replace_Z (created_at (sample_call '''' ''the spa'' 60))) = None) \<and>
   map_sum id temporal_features (enrich_conversation_data sample_libs (sample_call '''' ''the spa'' 60)) =
     Inr \<lparr>call_date = ''2025-01-01'', call_time = ''12:00:00'', call_hour = 12,
          call_day_of_week = ''Monday'', call_month = ''January'', call_year = 2025,
          is_weekend = False, is_business_hours = True, call_quarter = ''Q1''\<rparr> \<and>
   (created_at (sample_call ''last Tuesday'' ''the spa'' 60) = [] \<or>
    fromisoformat sample_libs (replace_Z (created_at (sample_call ''last Tuesday'' ''the spa'' 60))) = None) \<and>
   created_at (sample_call ''last Tuesday'' ''the spa'' 60) \<noteq> [] \<and>
   map_sum id temporal_features
       (enrich_conversation_data sample_libs (sample_call ''last Tuesday'' ''the spa'' 60)) =
     Inr \<lparr>call_date = ''2025-01-01'', call_time = ''12:00:00'', call_hour = 12,
          call_day_of_week = ''Monday'', call_month = ''January'', call_year = 2025,
          is_weekend = False, is_business_hours = True, call_quarter = ''Q1''\<rparr>"
proof -
  let ?a = "sample_call '''' ''the spa'' 60"
  let ?b = "sample_call ''last Tuesday'' ''the spa'' 60"
  have ha: "created_at ?a = [] \<or> fromisoformat sample_libs (replace_Z (created_at ?a)) = None"
    by (simp add: sample_call_def)
  have hb: "created_at ?b = [] \<or> fromisoformat sample_libs (replace_Z (created_at ?b)) = None"
    by (simp add: sample_call_def sample_libs_def sample_fromisoformat_def replace_Z_def)
  have nb: "created_at ?b \<noteq> []" by (simp add: sample_call_def)
  have ka: "any_in (concat (map snd topic_keywords)) (lower (conversation_text ?a))"
    and kb: "any_in (concat (map snd topic_keywords)) (lower (conversation_text ?b))"
    by code_simp+
  obtain ra where ra: "enrich_conversation_data sample_libs ?a = Inr ra"
    using enrich_returns [OF ka] by blast
  obtain rb where rb: "enrich_conversation_data sample_libs ?b = Inr rb"
    using enrich_returns [OF kb] by blast
  show ?thesis
    using ha hb nb temporal_default_sentinel [OF ha] temporal_default_sentinel [OF hb] ra rb
    by simp
qed

section \<open>Properties of the role resolution\<close>

text \<open>The substring test finds exactly the contiguous occurrences.\<close>

lemma startswith_iff: "startswith t p \<longleftrightarrow> (\<exists>s. t = p @ s)"
  by (induction t p rule: startswith.induct) auto

lemma str_in_iff: "str_in p t \<longleftrightarrow> (\<exists>a b. t = a @ p @ b)"
proof (induction t)
  case Nil
  show ?case by auto
next
  case (Cons c cs)
  show ?case
  proof
    assume "str_in p (c # cs)"
    then consider "startswith (c # cs) p" | "str_in p cs" by auto
    then show "\<exists>a b. c # cs = a @ p @ b"
    proof cases
      case 1
      then obtain s where "c # cs = p @ s" unfolding startswith_iff by blast
      then have "c # cs = [] @ p @ s" by simp
      then show ?thesis by blast
    next
      case 2
      then obtain a b where "cs = a @ p @ b" using Cons.IH by blast
      then have "c # cs = (c # a) @ p @ b" by simp
      then show ?thesis by blast
    qed
  next
    assume "\<exists>a b. c # cs = a @ p @ b"
    then obtain a b where ab: "c # cs = a @ p @ b" by blast
    show "str_in p (c # cs)"
    proof (cases a)
      case Nil
      then have "startswith (c # cs) p" unfolding startswith_iff using ab by auto
      then show ?thesis by simp
    next
      case (Cons x xs)
      then have "cs = xs @ p @ b" using ab by simp
      then have "str_in p cs" using Cons.IH by blast
      then show ?thesis by simp
    qed
  qed
qed

lemma email_domain_suffix: "\<exists>a. e = a @ email_domain e"
proof (cases "CHR ''@'' \<in> set e")
  case True
  have "rev e = takeWhile (\<lambda>c. c \<noteq> CHR ''@'') (rev e) @ dropWhile (\<lambda>c. c \<noteq> CHR ''@'') (rev e)"
    by simp
  then have "e = rev (dropWhile (\<lambda>c. c \<noteq> CHR ''@'') (rev e)) @ rev (takeWhile (\<lambda>c. c \<noteq> CHR ''@'') (rev e))"
    by (metis rev_append rev_rev_ident)
  then show ?thesis using True unfolding email_domain_def by auto
next
  case False
  then show ?thesis by (simp add: email_domain_def)
qed

lemma str_in_domain: "str_in p (email_domain e) \<Longrightarrow> str_in p e"
proof -
  assume "str_in p (email_domain e)"
  then obtain a b where d: "email_domain e = a @ p @ b" unfolding str_in_iff by blast
  obtain c where "e = c @ email_domain e" using email_domain_suffix by blast
  then have "e = (c @ a) @ p @ b" using d by simp
  then show "str_in p e" unfolding str_in_iff by blast
qed

text \<open>
  Claim C4, as amended. The role is \<open>agent\<close> exactly when the lower-cased name contains one
  of \<open>support\<close>, \<open>agent\<close>, \<open>rep\<close>, \<open>service\<close> or the lower-cased e-mail address, anywhere in
  it and not only in its domain, contains \<open>feelgoodspas\<close> or \<open>spa\<close>; otherwise it is
  \<open>customer\<close>. So an e-mail address containing \<open>spa\<close> gives \<open>agent\<close> whatever the name is, and
  every party that the rule on the e-mail domain makes an agent is an agent.
\<close>

theorem determine_party_role_rule:
  "determine_party_role person =
     (if any_in [''support'', ''agent'', ''rep'', ''service''] (lower (get_str (p_name person) '''')) \<or>
         str_in ''feelgoodspas'' (lower (get_str (p_email person) '''')) \<or>
         str_in ''spa'' (lower (get_str (p_email person) ''''))
      then ''agent'' else ''customer'') \<and>
   (str_in ''spa'' (lower (get_str (p_email person) '''')) \<longrightarrow> determine_party_role person = ''agent'') \<and>
   (spec_is_agent person \<longrightarrow> determine_party_role person = ''agent'')"
proof -
  have rule: "determine_party_role person =
     (if any_in [''support'', ''agent'', ''rep'', ''service''] (lower (get_str (p_name person) '''')) \<or>
         str_in ''feelgoodspas'' (lower (get_str (p_email person) '''')) \<or>
         str_in ''spa'' (lower (get_str (p_email person) ''''))
      then ''agent'' else ''customer'')"
    by (simp add: determine_party_role_def Let_def)
  have "determine_party_role person = ''agent''" if "spec_is_agent person"
  proof -
    from that consider
        "any_in [''support'', ''agent'', ''rep'', ''service''] (lower (get_str (p_name person) ''''))"
      | "str_in ''feelgoodspas'' (email_domain (lower (get_str (p_email person) '''')))"
      | "str_in ''spa'' (email_domain (lower (get_str (p_email person) '''')))"
      unfolding spec_is_agent_def Let_def by blast
    then show ?thesis
    proof cases
      case 1
      then show ?thesis unfolding rule by simp
    next
      case 2
      then have "str_in ''feelgoodspas'' (lower (get_str (p_email person) ''''))"
        by (rule str_in_domain)
      then show ?thesis unfolding rule by simp
    next
      case 3
      then have "str_in ''spa'' (lower (get_str (p_email person) ''''))"
        by (rule str_in_domain)
      then show ?thesis unfolding rule by simp
    qed
  qed
  moreover have "determine_party_role person = ''agent''"
    if "str_in ''spa'' (lower (get_str (p_email person) ''''))"
    using that unfolding rule by simp
  ultimately show ?thesis using rule by blast
qed

theorem determine_party_role_rule_witness:
  "determine_party_role (sample_party ''Dana Cruz'' ''dana@SpaWorld.example'') = ''agent'' \<and>
   str_in ''spa'' (lower (get_str (p_email (sample_party ''Dana Cruz'' ''dana@SpaWorld.example'')) '''')) \<and>
   spec_is_agent (sample_party ''Dana Cruz'' ''dana@SpaWorld.example'') \<and>
   determine_party_role (sample_party ''Customer Service'' ''cs@example.org'') = ''agent'' \<and>
   determine_party_role (sample_party ''Dana Cruz'' ''dana@example.org'') = ''customer''"
proof -
  have h1: "str_in ''spa'' (lower (get_str (p_email (sample_party ''Dana Cruz'' ''dana@SpaWorld.example'')) ''''))"
    and h2: "spec_is_agent (sample_party ''Dana Cruz'' ''dana@SpaWorld.example'')"
    and h3: "any_in [''support'', ''agent'', ''rep'', ''service'']
               (lower (get_str (p_name (sample_party ''Customer Service'' ''cs@example.org'')) ''''))"
    and h4: "\<not> any_in [''support'', ''agent'', ''rep'', ''service'']
               (lower (get_str (p_name (sample_party ''Dana Cruz'' ''dana@example.org'')) ''''))"
    and h5: "\<not> str_in ''feelgoodspas'' (lower (get_str (p_email (sample_party ''Dana Cruz'' ''dana@example.org'')) ''''))"
    and h6: "\<not> str_in ''spa'' (lower (get_str (p_email (sample_party ''Dana Cruz'' ''dana@example.org'')) ''''))"
    by code_simp+
  show ?thesis
    using h1 h2 h3 h4 h5 h6
      determine_party_role_rule [of "sample_party ''Dana Cruz'' ''dana@SpaWorld.example''"]
      determine_party_role_rule [of "sample_party ''Customer Service'' ''cs@example.org''"]
      determine_party_role_rule [of "sample_party ''Dana Cruz'' ''dana@example.org''"]
    by simp
qed

text \<open>
  Claim C4, as stated, fails: for the address \<open>spa.fan@gmail.com\<close> the domain
  \<open>gmail.com\<close> holds neither token and the name holds no indicator, yet the role is
  \<open>agent\<close>, since \<open>spa\<close> occurs before the \<open>@\<close>.
\<close>

theorem determine_party_role_counterexample:
  "determine_party_role (sample_party ''Dana Cruz'' ''spa.fan@gmail.com'') = ''agent'' \<and>
   email_domain (lower ''spa.fan@gmail.com'') = ''gmail.com'' \<and>
   \<not> spec_is_agent (sample_party ''Dana Cruz'' ''spa.fan@gmail.com'')"
  by code_simp

section \<open>Properties of the conversation type\<close>

text \<open>
  Claim C8. For every concatenated text the conversation type is obtained from the four
  counts of keywords present in the lower-cased text: \<open>general\<close> when all four are zero,
  else the first bucket, in the order booking, complaint, billing, service, whose count is
  the highest.
\<close>

theorem classify_conversation_type_spec:
  "classify_conversation_type text = spec_conversation_type text"
proof -
  define b where "b = count_in booking_keywords (lower text)"
  define c where "c = count_in complaint_keywords (lower text)"
  define l where "l = count_in billing_keywords (lower text)"
  define s where "s = count_in service_keywords (lower text)"
  have code: "classify_conversation_type text =
        (if max (max (max b c) l) s = 0 then ''general''
         else if max (max (max b c) l) s = b then ''booking''
         else if max (max (max b c) l) s = c then ''complaint''
         else if max (max (max b c) l) s = l then ''billing''
         else ''service_inquiry'')"
    unfolding classify_conversation_type_def Let_def b_def c_def l_def s_def ..
  have spec: "spec_conversation_type text =
        (if b = 0 \<and> c = 0 \<and> l = 0 \<and> s = 0 then ''general''
         else if c \<le> b \<and> l \<le> b \<and> s \<le> b then ''booking''
         else if b \<le> c \<and> l \<le> c \<and> s \<le> c then ''complaint''
         else if b \<le> l \<and> c \<le> l \<and> s \<le> l then ''billing''
         else if b \<le> s \<and> c \<le> s \<and> l \<le> s then ''service_inquiry''
         else ''general'')"
    unfolding spec_conversation_type_def buckets_of_def highest_def Let_def
      b_def [symmetric] c_def [symmetric] l_def [symmetric] s_def [symmetric]
    by simp
  show ?thesis
    unfolding code spec by (simp add: max_def)
qed

section \<open>Properties of the structural metrics\<close>

lemma fold_count_entry:
  "agent_messages (fold count_entry ds m) =
     agent_messages m + length (filter (\<lambda>e. party e = Number 0) ds) \<and>
   customer_messages (fold count_entry ds m) =
     customer_messages m + length (filter (\<lambda>e. party e \<noteq> Number 0) ds) \<and>
   metrics_message_count (fold count_entry ds m) = metrics_message_count m"
proof (induction ds arbitrary: m)
  case Nil
  show ?case by simp
next
  case (Cons d ds)
  have step: "agent_messages (count_entry d m) =
                agent_messages m + (if party d = Number 0 then 1 else 0)"
      "customer_messages (count_entry d m) =
                customer_messages m + (if party d = Number 0 then 0 else 1)"
      "metrics_message_count (count_entry d m) = metrics_message_count m"
    by (simp_all add: count_entry_def Let_def split: jvalue.splits)
  show ?case
    using Cons [of "count_entry d m"] step by simp
qed

text \<open>
  Claim C10. For every dialog list the structural metrics count each turn once, as an agent
  turn when its party is 0 and as a customer turn otherwise, whatever its type and body:
  \<open>agent_messages + customer_messages = message_count = len(dialog)\<close>; and so do the metrics
  of every parsed conversation.
\<close>

theorem message_counts_partition:
  "agent_messages (calculate_conversation_metrics dialog_data analysis_data) =
     length (filter (\<lambda>e. party e = Number 0) dialog_data) \<and>
   customer_messages (calculate_conversation_metrics dialog_data analysis_data) =
     length (filter (\<lambda>e. party e \<noteq> Number 0) dialog_data) \<and>
   agent_messages (calculate_conversation_metrics dialog_data analysis_data) +
     customer_messages (calculate_conversation_metrics dialog_data analysis_data) =
     metrics_message_count (calculate_conversation_metrics dialog_data analysis_data) \<and>
   metrics_message_count (calculate_conversation_metrics dialog_data analysis_data) =
     length dialog_data \<and>
   (\<forall>conv. parse_single_conversation item = Some conv \<longrightarrow>
      agent_messages (parsed_metrics conv) + customer_messages (parsed_metrics conv) =
        metrics_message_count (parsed_metrics conv) \<and>
      metrics_message_count (parsed_metrics conv) = length (parsed_dialog conv))"
proof -
  have a: "agent_messages (calculate_conversation_metrics ds an) =
           length (filter (\<lambda>e. party e = Number 0) ds)"
    and c: "customer_messages (calculate_conversation_metrics ds an) =
           length (filter (\<lambda>e. party e \<noteq> Number 0) ds)"
    and n: "metrics_message_count (calculate_conversation_metrics ds an) = length ds"
    for ds an
    by (simp_all add: calculate_conversation_metrics_def Let_def fold_count_entry)
  have s: "length (filter (\<lambda>e. party e = Number 0) ds) +
           length (filter (\<lambda>e. party e \<noteq> Number 0) ds) = length ds" for ds :: "dialog_entry list"
    using sum_length_filter_compl [of "\<lambda>e. party e = Number 0" ds] by simp
  have p: "agent_messages (parsed_metrics conv) + customer_messages (parsed_metrics conv) =
             metrics_message_count (parsed_metrics conv) \<and>
           metrics_message_count (parsed_metrics conv) = length (parsed_dialog conv)"
    if "parse_single_conversation item = Some conv" for conv
  proof -
    from that obtain ds an where "parsed_metrics conv = calculate_conversation_metrics ds an"
      and "parsed_dialog conv = ds"
      by (auto simp: parse_single_conversation_def Let_def split: raw_item.splits)
    then show ?thesis by (simp add: a c n s)
  qed
  show ?thesis
    using p by (simp add: a c n s)
qed

theorem message_counts_partition_witness:
  "(\<exists>conv. parse_single_conversation (sample_conversation ''conv-1'' ''I want to book a massage'') = Some conv \<and>
      agent_messages (parsed_metrics conv) = 1 \<and> customer_messages (parsed_metrics conv) = 1 \<and>
      metrics_message_count (parsed_metrics conv) = 2 \<and> length (parsed_dialog conv) = 2)"
proof -
  obtain conv where c: "parse_single_conversation (sample_conversation ''conv-1'' ''I want to book a massage'') = Some conv"
    by (simp add: parse_single_conversation_def sample_conversation_def Let_def)
  have d: "parsed_dialog conv = extract_dialog [sample_turn 0 ''How can I help?'', sample_turn 1 ''I want to book a massage'']"
    and m: "parsed_metrics conv = calculate_conversation_metrics
              (extract_dialog [sample_turn 0 ''How can I help?'', sample_turn 1 ''I want to book a massage''])
              (extract_analysis [])"
    using c by (auto simp: parse_single_conversation_def sample_conversation_def Let_def get_list_def)
  have l: "length (parsed_dialog conv) = 2" unfolding d by (simp add: extract_dialog_def)
  have a: "agent_messages (parsed_metrics conv) = 1"
    unfolding m
    using message_counts_partition [of "extract_dialog [sample_turn 0 ''How can I help?'', sample_turn 1 ''I want to book a massage'']" "extract_analysis []" "sample_conversation ''conv-1'' ''I want to book a massage''"]
    by (simp add: extract_dialog_def sample_turn_def get_val_def)
  show ?thesis
    using c l a message_counts_partition [of "parsed_dialog conv" "extract_analysis []" "sample_conversation ''conv-1'' ''I want to book a massage''"]
    by auto
qed

section \<open>Properties of the batch run\<close>

lemma enrich_each_append:
  "enrich_each lib (xs @ ys) d =
     (case enrich_each lib xs d of Inl e \<Rightarrow> Inl e | Inr d' \<Rightarrow> enrich_each lib ys d')"
  by (induction xs arbitrary: d) (auto split: sum.splits)

lemma enrich_each_conversations:
  "enrich_each lib cs d = Inr d' \<Longrightarrow> map conversation d' = map conversation d @ cs"
proof (induction cs arbitrary: d)
  case Nil
  then show ?case by simp
next
  case (Cons c cs)
  from Cons.prems obtain r where r: "enrich_conversation_data lib c = Inr r"
    and rest: "enrich_each lib cs (d @ [r]) = Inr d'"
    by (auto split: sum.splits)
  have "conversation r = c" using enrich_fields(1) [OF r] .
  then show ?case using Cons.IH [OF rest] by simp
qed

lemma enrich_each_returns:
  "list_all has_topic_keyword cs \<Longrightarrow> \<exists>d'. enrich_each lib cs d = Inr d'"
proof (induction cs arbitrary: d)
  case Nil
  show ?case by simp
next
  case (Cons c cs)
  then have "has_topic_keyword c" and all: "list_all has_topic_keyword cs" by simp_all
  then obtain r where r: "enrich_conversation_data lib c = Inr r"
    using enrich_returns unfolding has_topic_keyword_def by blast
  show ?case using Cons.IH [OF all, of "d @ [r]"] r by simp
qed

lemma loaded_calls_Cons:
  "loaded_calls fs (f # fl) =
     (case load_vcon_file fs f of
        None \<Rightarrow> []
      | Some cs \<Rightarrow> extract_business_data (parse_conversations cs)) @ loaded_calls fs fl"
  by (simp add: loaded_calls_def)

lemma loaded_calls_append: "loaded_calls fs (xs @ ys) = loaded_calls fs xs @ loaded_calls fs ys"
  by (simp add: loaded_calls_def)

lemma process_files_char:
  "process_files fs lib fl (d, dn) =
     (case enrich_each lib (loaded_calls fs fl) d of
        Inl e \<Rightarrow> Inl e
      | Inr d' \<Rightarrow> Inr (d', dn @ filter (\<lambda>f. load_vcon_file fs f \<noteq> None) fl))"
proof (induction fl arbitrary: d dn)
  case Nil
  show ?case by (simp add: loaded_calls_def)
next
  case (Cons f fl)
  show ?case
  proof (cases "load_vcon_file fs f")
    case None
    then show ?thesis using Cons [of d dn] by (simp add: loaded_calls_Cons split: sum.splits)
  next
    case (Some cs)
    show ?thesis
    proof (cases "enrich_each lib (extract_business_data (parse_conversations cs)) d")
      case (Inl e)
      then show ?thesis using Some by (simp add: loaded_calls_Cons enrich_each_append Let_def)
    next
      case (Inr d1)
      then show ?thesis
        using Some Cons [of d1 "dn @ [f]"]
        by (simp add: loaded_calls_Cons enrich_each_append Let_def split: sum.splits)
    qed
  qed
qed

lemma process_patterns_char:
  "process_patterns fs lib ps (d, dn) =
     (case enrich_each lib (loaded_calls fs (batch_files fs ps)) d of
        Inl e \<Rightarrow> Inl e
      | Inr d' \<Rightarrow> Inr (d', dn @ filter (\<lambda>f. load_vcon_file fs f \<noteq> None) (batch_files fs ps)))"
proof (induction ps arbitrary: d dn)
  case Nil
  show ?case by (simp add: batch_files_def loaded_calls_def)
next
  case (Cons p ps)
  have bf: "batch_files fs (p # ps) = files_of fs p @ batch_files fs ps"
    by (simp add: batch_files_def)
  show ?case
  proof (cases "enrich_each lib (loaded_calls fs (files_of fs p)) d")
    case (Inl e)
    then show ?thesis
      by (simp add: bf process_files_char loaded_calls_append enrich_each_append)
  next
    case (Inr d1)
    then show ?thesis
      using Cons [of d1 "dn @ filter (\<lambda>f. load_vcon_file fs f \<noteq> None) (files_of fs p)"]
      by (simp add: bf process_files_char loaded_calls_append enrich_each_append split: sum.splits)
  qed
qed

text \<open>
  The run is the enrichment of the conversations of the files that load, in order; the flag
  says whether a file loaded.
\<close>

lemma process_vcon_files_char:
  "process_vcon_files fs lib ps d =
     (case enrich_each lib (loaded_calls fs (batch_files fs ps)) d of
        Inl e \<Rightarrow> Inl e
      | Inr d' \<Rightarrow> Inr (list_ex (\<lambda>f. load_vcon_file fs f \<noteq> None) (batch_files fs ps), d'))"
proof -
  have "(0 < length (filter P xs)) = list_ex P xs" for P and xs :: "string list"
    by (induction xs) auto
  then show ?thesis
    by (simp add: process_vcon_files_def process_patterns_char split: sum.splits)
qed

lemma skipped_files:
  assumes "\<forall>f \<in> set (files_of fs p). load_vcon_file fs f = None"
  shows "loaded_calls fs (batch_files fs (ps @ p # qs)) = loaded_calls fs (batch_files fs (ps @ qs))"
    and "list_ex (\<lambda>f. load_vcon_file fs f \<noteq> None) (batch_files fs (ps @ p # qs)) =
         list_ex (\<lambda>f. load_vcon_file fs f \<noteq> None) (batch_files fs (ps @ qs))"
proof -
  have "loaded_calls fs (files_of fs p) = []"
    using assms by (auto simp: loaded_calls_def)
  then show "loaded_calls fs (batch_files fs (ps @ p # qs)) = loaded_calls fs (batch_files fs (ps @ qs))"
    by (simp add: batch_files_def loaded_calls_append)
  show "list_ex (\<lambda>f. load_vcon_file fs f \<noteq> None) (batch_files fs (ps @ p # qs)) =
        list_ex (\<lambda>f. load_vcon_file fs f \<noteq> None) (batch_files fs (ps @ qs))"
    using assms by (auto simp: batch_files_def list_ex_iff)
qed

text \<open>
  A file that is not valid JSON does not load; a pattern whose files do not load is skipped,
  the run going on with the other patterns as if it were not there. When
  \<open>process_vcon_files\<close> returns, its flag says whether a file loaded and the new records are
  those of the conversations of the files that loaded, in order.
\<close>

lemma invalid_json_skipped:
  "read_json fs f = InvalidJSON \<Longrightarrow> load_vcon_file fs f = None"
  "\<forall>f \<in> set (files_of fs p). load_vcon_file fs f = None \<Longrightarrow>
     process_vcon_files fs lib (ps @ p # qs) d = process_vcon_files fs lib (ps @ qs) d"
proof -
  show "read_json fs f = InvalidJSON \<Longrightarrow> load_vcon_file fs f = None"
    by (simp add: load_vcon_file_def)
  show "\<forall>f \<in> set (files_of fs p). load_vcon_file fs f = None \<Longrightarrow>
     process_vcon_files fs lib (ps @ p # qs) d = process_vcon_files fs lib (ps @ qs) d"
    unfolding process_vcon_files_char by (simp only: skipped_files)
qed

lemma no_file_no_call:
  "\<not> list_ex (\<lambda>f. load_vcon_file fs f \<noteq> None) files \<Longrightarrow> loaded_calls fs files = []"
  by (auto simp: loaded_calls_def list_ex_iff)

text \<open>
  Without the defect of the topic classification the run does what the specification says:
  when every conversation of the batch has a topic keyword and the library writes the file,
  the run reports success exactly when a record came out of the batch. A batch whose files
  load without a single conversation is reported as a failed export.
\<close>

lemma run_without_topic_defect:
  assumes "list_all has_topic_keyword (loaded_calls fs (batch_files fs ps))"
  shows "\<exists>d. process_vcon_files fs lib ps [] =
               Inr (list_ex (\<lambda>f. load_vcon_file fs f \<noteq> None) (batch_files fs ps), d) \<and>
             map conversation d = loaded_calls fs (batch_files fs ps) \<and>
             run_batch fs lib write_csv ps =
               Inr (if list_ex (\<lambda>f. load_vcon_file fs f \<noteq> None) (batch_files fs ps)
                    then (if d \<noteq> [] \<and> write_csv d then Completed else ExportFailed)
                    else ProcessFailed)"
proof -
  obtain d where d: "enrich_each lib (loaded_calls fs (batch_files fs ps)) [] = Inr d"
    using enrich_each_returns [OF assms] by blast
  have p: "process_vcon_files fs lib ps [] =
           Inr (list_ex (\<lambda>f. load_vcon_file fs f \<noteq> None) (batch_files fs ps), d)"
    unfolding process_vcon_files_char by (simp add: d)
  have m: "map conversation d = loaded_calls fs (batch_files fs ps)"
    using enrich_each_conversations [OF d] by simp
  have r: "run_batch fs lib write_csv ps =
             Inr (if list_ex (\<lambda>f. load_vcon_file fs f \<noteq> None) (batch_files fs ps)
                  then (if d \<noteq> [] \<and> write_csv d then Completed else ExportFailed)
                  else ProcessFailed)"
    unfolding run_batch_def p by (simp add: export_to_csv_def)
  show ?thesis using p m r by blast
qed

lemma run_succeeds_iff_record:
  assumes "list_all has_topic_keyword (loaded_calls fs (batch_files fs ps))"
    and "\<And>d. write_csv d"
  shows "run_batch fs lib write_csv ps = Inr Completed \<longleftrightarrow> loaded_calls fs (batch_files fs ps) \<noteq> []"
proof -
  obtain d where m: "map conversation d = loaded_calls fs (batch_files fs ps)"
    and r: "run_batch fs lib write_csv ps =
             Inr (if list_ex (\<lambda>f. load_vcon_file fs f \<noteq> None) (batch_files fs ps)
                  then (if d \<noteq> [] \<and> write_csv d then Completed else ExportFailed)
                  else ProcessFailed)"
    using run_without_topic_defect [OF assms(1)] by blast
  have e: "(d \<noteq> []) = (loaded_calls fs (batch_files fs ps) \<noteq> [])"
    using m by (metis map_is_Nil_conv)
  show ?thesis
  proof (cases "list_ex (\<lambda>f. load_vcon_file fs f \<noteq> None) (batch_files fs ps)")
    case True
    then show ?thesis unfolding r using e assms(2) by simp
  next
    case False
    then have "loaded_calls fs (batch_files fs ps) = []" by (rule no_file_no_call)
    then show ?thesis unfolding r using False by simp
  qed
qed

text \<open>With the defect: the first conversation without a topic keyword ends the enrichment.\<close>

lemma enrich_without_keyword:
  assumes "\<not> has_topic_keyword c"
  shows "enrich_conversation_data lib c = Inl (KeyError ''general'')"
proof -
  have "classify_topics (conversation_text c) = Inl (KeyError ''general'')"
    using assms unfolding has_topic_keyword_def by (rule no_keyword_KeyError)
  then show ?thesis by (simp add: enrich_conversation_data_def Let_def)
qed

lemma enrich_each_raises:
  "\<not> list_all has_topic_keyword cs \<Longrightarrow> enrich_each lib cs d = Inl (KeyError ''general'')"
proof (induction cs arbitrary: d)
  case Nil
  then show ?case by simp
next
  case (Cons c cs)
  show ?case
  proof (cases "has_topic_keyword c")
    case True
    then obtain r where r: "enrich_conversation_data lib c = Inr r"
      using enrich_returns unfolding has_topic_keyword_def by blast
    from True Cons.prems have "\<not> list_all has_topic_keyword cs" by simp
    then show ?thesis using Cons.IH [of "d @ [r]"] r by simp
  next
    case False
    then show ?thesis by (simp add: enrich_without_keyword)
  qed
qed

text \<open>
  Claim C5. A batch should run to its end, skipping the files that are not valid JSON, and
  succeed exactly when a record came out of it. The files that do not load are skipped, but
  the run does not always reach its end: when a file that loads holds a conversation whose
  transcript has no topic keyword, the enrichment raises \<open>KeyError\<close> and nothing catches it,
  so the run ends there, with no report and no export, whatever the other files hold.
\<close>

theorem run_raises_on_conversation_without_topic_keyword:
  assumes "\<not> list_all has_topic_keyword (loaded_calls fs (batch_files fs file_patterns))"
  shows "run_batch fs lib write_csv file_patterns = Inl (KeyError ''general'')"
proof -
  have "process_vcon_files fs lib file_patterns [] = Inl (KeyError ''general'')"
    unfolding process_vcon_files_char by (simp add: enrich_each_raises [OF assms])
  then show ?thesis by (simp add: run_batch_def)
qed

lemma sample_batch_facts:
  "files_of sample_fs ''two.json'' = [''two.json'']"
  "read_json sample_fs ''two.json'' = InvalidJSON"
  "batch_files sample_fs [''one.json'', ''two.json'', ''three.json''] =
     [''one.json'', ''two.json'', ''three.json'']"
  "batch_files sample_fs [''one.json'', ''two.json'', ''silent.json''] =
     [''one.json'', ''two.json'', ''silent.json'']"
  "batch_files sample_fs [''none.json''] = [''none.json'']"
  "load_vcon_file sample_fs ''one.json'' \<noteq> None"
  "load_vcon_file sample_fs ''none.json'' \<noteq> None"
  "map conversation_id (loaded_calls sample_fs [''one.json'', ''two.json'', ''three.json'']) =
     [''conv-1'', ''conv-3'']"
  "map conversation_id (loaded_calls sample_fs [''one.json'', ''two.json'', ''silent.json'']) =
     [''conv-1'', ''conv-9'']"
  "loaded_calls sample_fs [''none.json''] = []"
  "list_all has_topic_keyword (loaded_calls sample_fs [''one.json'', ''two.json'', ''three.json''])"
  "\<not> list_all has_topic_keyword (loaded_calls sample_fs [''one.json'', ''two.json'', ''silent.json''])"
  by code_simp+

text \<open>
  Scenario 4 of the specification, and the batch of one file that holds an empty array: the
  first is reported as a success, the second as a failed export.
\<close>

lemma sample_runs:
  "run_batch sample_fs sample_libs sample_write_csv [''one.json'', ''two.json'', ''three.json''] =
     Inr Completed"
  "run_batch sample_fs sample_libs sample_write_csv [''none.json''] = Inr ExportFailed"
proof -
  let ?ps = "[''one.json'', ''two.json'', ''three.json'']"
  have kw: "list_all has_topic_keyword (loaded_calls sample_fs (batch_files sample_fs ?ps))"
    unfolding sample_batch_facts(3) by (rule sample_batch_facts(11))
  have ne: "loaded_calls sample_fs (batch_files sample_fs ?ps) \<noteq> []"
    unfolding sample_batch_facts(3) using sample_batch_facts(8) by auto
  show "run_batch sample_fs sample_libs sample_write_csv ?ps = Inr Completed"
    using run_succeeds_iff_record [OF kw, of sample_write_csv sample_libs] ne
    by (simp add: sample_write_csv_def)
  have kn: "list_all has_topic_keyword (loaded_calls sample_fs (batch_files sample_fs [''none.json'']))"
    unfolding sample_batch_facts(5) sample_batch_facts(10) by simp
  obtain d where m: "map conversation d = loaded_calls sample_fs (batch_files sample_fs [''none.json''])"
    and r: "run_batch sample_fs sample_libs sample_write_csv [''none.json''] =
             Inr (if list_ex (\<lambda>f. load_vcon_file sample_fs f \<noteq> None) (batch_files sample_fs [''none.json''])
                  then (if d \<noteq> [] \<and> sample_write_csv d then Completed else ExportFailed)
                  else ProcessFailed)"
    using run_without_topic_defect [OF kn, of sample_libs sample_write_csv] by blast
  have "d = []" using m unfolding sample_batch_facts(5) sample_batch_facts(10) by simp
  then show "run_batch sample_fs sample_libs sample_write_csv [''none.json''] = Inr ExportFailed"
    unfolding r sample_batch_facts(5) using sample_batch_facts(7) by simp
qed

theorem run_raises_on_conversation_without_topic_keyword_witness:
  "map conversation_id
     (loaded_calls sample_fs (batch_files sample_fs [''one.json'', ''two.json'', ''silent.json''])) =
     [''conv-1'', ''conv-9''] \<and>
   \<not> list_all has_topic_keyword
       (loaded_calls sample_fs (batch_files sample_fs [''one.json'', ''two.json'', ''silent.json''])) \<and>
   run_batch sample_fs sample_libs sample_write_csv [''one.json'', ''two.json'', ''silent.json''] =
     Inl (KeyError ''general'') \<and>
   run_batch sample_fs sample_libs sample_write_csv [''one.json'', ''two.json'', ''three.json''] =
     Inr Completed"
proof -
  have h: "\<not> list_all has_topic_keyword
             (loaded_calls sample_fs (batch_files sample_fs [''one.json'', ''two.json'', ''silent.json'']))"
    unfolding sample_batch_facts(4) by (rule sample_batch_facts(12))
  have ids: "map conversation_id
     (loaded_calls sample_fs (batch_files sample_fs [''one.json'', ''two.json'', ''silent.json''])) =
     [''conv-1'', ''conv-9'']"
    unfolding sample_batch_facts(4) by (rule sample_batch_facts(9))
  show ?thesis
    using ids h sample_runs(1)
      run_raises_on_conversation_without_topic_keyword [OF h, of sample_libs sample_write_csv]
    by simp
qed

end
